theory Spec2Isabelle
  imports Main "HOL-Library.Word" "HOL-Library.Sublist"
begin

section \<open>Data model (src/main.py)\<close>

text \<open>
  The enumerations of the source. Each is a \<open>str\<close> enumeration in Python, so a member
  has a string value and the enumeration's constructor maps a string back to a member or
  raises \<open>ValueError\<close>.
\<close>

datatype BrowserType = CHROMIUM | FIREFOX | WEBKIT

datatype ActionType =
    NAVIGATE | CLICK | TYPE' | FILL | SELECT | CHECK | UNCHECK | SCREENSHOT
  | EXTRACT_TEXT | EXTRACT_ATTRIBUTES | WAIT | SCROLL | HOVER | FOCUS | PRESS_KEY
  | GET_HTML | EVALUATE | WAIT_FOR_ELEMENT | GET_TITLE | GET_URL | GO_BACK
  | GO_FORWARD | RELOAD

datatype SelectorType = CSS | XPATH | TEXT | ROLE | LABEL | AUTO

fun BrowserType_value :: "BrowserType \<Rightarrow> string" where
  "BrowserType_value CHROMIUM = ''chromium''"
| "BrowserType_value FIREFOX = ''firefox''"
| "BrowserType_value WEBKIT = ''webkit''"

fun ActionType_value :: "ActionType \<Rightarrow> string" where
  "ActionType_value NAVIGATE = ''navigate''"
| "ActionType_value CLICK = ''click''"
| "ActionType_value TYPE' = ''type''"
| "ActionType_value FILL = ''fill''"
| "ActionType_value SELECT = ''select''"
| "ActionType_value CHECK = ''check''"
| "ActionType_value UNCHECK = ''uncheck''"
| "ActionType_value SCREENSHOT = ''screenshot''"
| "ActionType_value EXTRACT_TEXT = ''extract_text''"
| "ActionType_value EXTRACT_ATTRIBUTES = ''extract_attributes''"
| "ActionType_value WAIT = ''wait''"
| "ActionType_value SCROLL = ''scroll''"
| "ActionType_value HOVER = ''hover''"
| "ActionType_value FOCUS = ''focus''"
| "ActionType_value PRESS_KEY = ''press_key''"
| "ActionType_value GET_HTML = ''get_html''"
| "ActionType_value EVALUATE = ''evaluate''"
| "ActionType_value WAIT_FOR_ELEMENT = ''wait_for_element''"
| "ActionType_value GET_TITLE = ''get_title''"
| "ActionType_value GET_URL = ''get_url''"
| "ActionType_value GO_BACK = ''go_back''"
| "ActionType_value GO_FORWARD = ''go_forward''"
| "ActionType_value RELOAD = ''reload''"

fun SelectorType_value :: "SelectorType \<Rightarrow> string" where
  "SelectorType_value CSS = ''css''"
| "SelectorType_value XPATH = ''xpath''"
| "SelectorType_value TEXT = ''text''"
| "SelectorType_value ROLE = ''role''"
| "SelectorType_value LABEL = ''label''"
| "SelectorType_value AUTO = ''auto''"

definition all_BrowserTypes :: "BrowserType list" where
  "all_BrowserTypes = [CHROMIUM, FIREFOX, WEBKIT]"

definition all_ActionTypes :: "ActionType list" where
  "all_ActionTypes =
     [NAVIGATE, CLICK, TYPE', FILL, SELECT, CHECK, UNCHECK, SCREENSHOT, EXTRACT_TEXT,
      EXTRACT_ATTRIBUTES, WAIT, SCROLL, HOVER, FOCUS, PRESS_KEY, GET_HTML, EVALUATE,
      WAIT_FOR_ELEMENT, GET_TITLE, GET_URL, GO_BACK, GO_FORWARD, RELOAD]"

definition all_SelectorTypes :: "SelectorType list" where
  "all_SelectorTypes = [CSS, XPATH, TEXT, ROLE, LABEL, AUTO]"

text \<open>
  Python values. \<open>pyval\<close> is the \<open>Union[str, int]\<close> of \<open>Action.value\<close>; \<open>pyobj\<close> is
  what an \<open>Any\<close>-typed field or a JSON-like dictionary holds (\<open>ActionResult.output\<close>, the
  records handed to \<open>Actor.push_data\<close>). A string is a sequence of code points below
  256. An integer of the input has passed the JSON decoder, which takes at most 4300
  digits, so \<open>str\<close> of it does not raise.
\<close>

datatype pyval = VStr string | VInt int

datatype pyobj =
    PNone
  | PBool bool
  | PInt int
  | PStr string
  | PList "pyobj list"
  | PDict "(string \<times> pyobj) list"

text \<open>
  Exceptions. By the contract of the driver, a browser operation that fails raises
  \<open>playwright.async_api.Error\<close> or its subclass \<open>TimeoutError\<close>, with any message, the
  empty one included; these are the two classes that \<open>find_element\<close> catches by name. The
  program itself raises \<open>ValueError\<close> (its own checks, \<open>int()\<close>, the constructors of the
  enumerations) and \<open>OverflowError\<close> (the division in the \<open>wait\<close> action). With the
  fields of the input typed as the dataclasses declare them, these are the exceptions of
  the program; every \<open>except\<close> clause but the one of \<open>find_element\<close> is
  \<open>except Exception\<close> and takes them all. \<open>str_exn\<close> is Python's \<open>str(e)\<close>: the message.
\<close>

datatype pw_error = TimeoutError string | Error string

datatype exn = Playwright pw_error | ValueError string | OverflowError string

fun str_pw :: "pw_error \<Rightarrow> string" where
  "str_pw (TimeoutError m) = m"
| "str_pw (Error m) = m"

fun str_exn :: "exn \<Rightarrow> string" where
  "str_exn (Playwright e) = str_pw e"
| "str_exn (ValueError m) = m"
| "str_exn (OverflowError m) = m"

text \<open>The two dataclasses. An absent optional field is \<open>None\<close>.\<close>

record Action =
  type :: ActionType
  selector :: "string option"
  "value" :: "pyval option"
  selector_type :: SelectorType
  timeout :: int
  description :: "string option"
  metadata :: "(string \<times> pyobj) list option"

record ActionResult =
  success :: bool
  action :: Action
  "output" :: pyobj
  error :: "string option"
  execution_time_ms :: int
  screenshot_base64 :: "string option"
  timestamp :: string

text \<open>\<open>PlaywrightMCPActor.stats\<close>: a dictionary with five fixed keys, all numbers.
  Wall-clock times are floats in the source; the model counts whole milliseconds.\<close>

record stats =
  total_actions :: nat
  successful_actions :: nat
  failed_actions :: nat
  total_execution_time_ms :: int
  screenshots_captured :: nat

subsection \<open>The run input\<close>

text \<open>
  An action of the run input: the dictionary \<open>_parse_action\<close> reads, with each key
  either absent or holding a value of the type the \<open>Action\<close> dataclass declares for it;
  \<open>type\<close> and \<open>selector_type\<close> are still strings.
\<close>

record action_data =
  d_type :: "string option"
  d_selector :: "string option"
  d_value :: "pyval option"
  d_selector_type :: "string option"
  d_timeout :: "int option"
  d_description :: "string option"
  d_metadata :: "(string \<times> pyobj) list option"

text \<open>The \<open>proxy\<close> dictionary of the run input.\<close>

record proxy =
  use_apify_proxy :: bool
  apify_proxy_groups :: "string list"
  custom_proxy_url :: "string option"

text \<open>
  The run input as \<open>Actor.get_input()\<close> returns it: \<open>None\<close>, or a dictionary whose keys
  may each be absent. The value under \<open>actions\<close> is a list of actions or something that
  is not a list (of which only the truthiness matters).
\<close>

datatype json_actions = NotAList bool | ActionList "action_data list"

record actor_input =
  in_template :: "string option"
  in_template_params :: "(string \<times> pyval) list option"
  in_actions :: "json_actions option"
  in_browser_type :: "string option"
  in_headless :: "bool option"
  in_proxy :: "proxy option"
  in_stealth_mode :: "bool option"
  in_export_format :: "string option"

subsection \<open>Python truthiness and string conversion\<close>

text \<open>A word between apostrophes, as the messages of the program write it.\<close>

definition quoted :: "string \<Rightarrow> string" where
  "quoted s = CHR 0x27 # s @ [CHR 0x27]"

fun show_nat :: "nat \<Rightarrow> string" where
  "show_nat n =
     (if n < 10 then [''0123456789'' ! n]
      else show_nat (n div 10) @ [''0123456789'' ! (n mod 10)])"

declare show_nat.simps [simp del]

definition show_int :: "int \<Rightarrow> string" where
  "show_int i = (if i < 0 then CHR ''-'' # show_nat (nat (- i)) else show_nat (nat i))"

text \<open>
  Python's \<open>repr\<close> of a string, which the messages of \<open>int()\<close> and of the enumeration
  constructors contain. The string is put between apostrophes, or between double quotes
  when it holds an apostrophe and no double quote. The backslash and the delimiter are
  escaped with a backslash; tab, newline and carriage return are written as a backslash
  and \<open>t\<close>, \<open>n\<close> or \<open>r\<close>; every other code point that is not printable (below 32,
  from 127 to 160, and 173) is written as a backslash, \<open>x\<close> and two hexadecimal digits.
\<close>

definition hex2 :: "nat \<Rightarrow> string" where
  "hex2 n = [''0123456789abcdef'' ! (n div 16 mod 16), ''0123456789abcdef'' ! (n mod 16)]"

definition repr_char :: "char \<Rightarrow> char \<Rightarrow> string" where
  "repr_char q c =
     (if c = q \<or> c = CHR 0x5C then [CHR 0x5C, c]
      else if c = CHR 0x09 then [CHR 0x5C, CHR ''t'']
      else if c = CHR 0x0A then [CHR 0x5C, CHR ''n'']
      else if c = CHR 0x0D then [CHR 0x5C, CHR ''r'']
      else if of_char c < (32 :: nat) \<or> (127 \<le> (of_char c :: nat) \<and> of_char c \<le> (160 :: nat)) \<or>
              of_char c = (173 :: nat)
           then [CHR 0x5C, CHR ''x''] @ hex2 (of_char c)
      else [c])"

definition repr_str :: "string \<Rightarrow> string" where
  "repr_str s =
     (let q = (if CHR 0x27 \<in> set s \<and> CHR 0x22 \<notin> set s then CHR 0x22 else CHR 0x27)
      in q # concat (map (repr_char q) s) @ [q])"

text \<open>\<open>not x\<close> for an optional string (\<open>None\<close> and the empty string are falsy) and for an
  optional \<open>str | int\<close> (\<open>None\<close>, the empty string and \<open>0\<close> are falsy).\<close>

definition truthy_str :: "string option \<Rightarrow> bool" where
  "truthy_str x = (case x of None \<Rightarrow> False | Some s \<Rightarrow> s \<noteq> [])"

definition truthy_val :: "pyval option \<Rightarrow> bool" where
  "truthy_val x =
     (case x of None \<Rightarrow> False | Some (VStr s) \<Rightarrow> s \<noteq> [] | Some (VInt n) \<Rightarrow> n \<noteq> 0)"

fun str_val :: "pyval \<Rightarrow> string" where
  "str_val (VStr s) = s"
| "str_val (VInt n) = show_int n"

fun obj_val :: "pyval \<Rightarrow> pyobj" where
  "obj_val (VStr s) = PStr s"
| "obj_val (VInt n) = PInt n"

text \<open>
  Python's \<open>int(x)\<close> on a \<open>str | int\<close>, as CPython 3.11 does it. An integer is returned
  as it is. A string is read as white space, an optional sign, a run of decimal digits
  with single underscores allowed between digits, and white space. The white space
  below 256 is the ASCII one and the code points 133 and 160; the only decimal digits
  below 256 are \<open>0\<close> to \<open>9\<close>. A run of more than 4300 digits is refused before what follows
  it is looked at. The message of an invalid literal holds the first 200 characters of
  the \<open>repr\<close> of the string.
\<close>

definition is_space :: "char \<Rightarrow> bool" where
  "is_space c =
     (c \<in> set [CHR '' '', CHR 0x09, CHR 0x0A, CHR 0x0B, CHR 0x0C, CHR 0x0D, CHR 0x85, CHR 0xA0])"

definition is_digit :: "char \<Rightarrow> bool" where
  "is_digit c = (c \<in> set ''0123456789'')"

text \<open>The run of digits at the head of a string: its value, the number of its digits and
  what follows it; \<open>None\<close> when there is no digit or an underscore is not between two
  digits.\<close>

fun scan_digits :: "bool \<Rightarrow> nat \<Rightarrow> nat \<Rightarrow> string \<Rightarrow> (nat \<times> nat \<times> string) option" where
  "scan_digits prev acc k [] = (if prev then Some (acc, k, []) else None)"
| "scan_digits prev acc k (c # cs) =
     (if is_digit c then scan_digits True (10 * acc + (of_char c - 48)) (k + 1) cs
      else if c = CHR ''_'' then (if prev then scan_digits False acc k cs else None)
      else if prev then Some (acc, k, c # cs)
      else None)"

definition max_str_digits :: nat where
  "max_str_digits = 4300"

definition int_of_str :: "string \<Rightarrow> exn + int" where
  "int_of_str s =
     (let invalid = Inl (ValueError (''invalid literal for int() with base 10: '' @
                                      take 200 (repr_str s)))
      in case dropWhile is_space s of
           [] \<Rightarrow> invalid
         | c # cs \<Rightarrow>
             (let negative = (c = CHR ''-'');
                  body = (if c = CHR ''-'' \<or> c = CHR ''+'' then cs else c # cs)
              in case scan_digits False 0 0 body of
                   None \<Rightarrow> invalid
                 | Some (n, k, rest) \<Rightarrow>
                     if max_str_digits < k then
                       Inl (ValueError
                         (''Exceeds the limit (4300 digits) for integer string conversion: '' @
                          ''value has '' @ show_nat k @ '' digits; use '' @
                          ''sys.set_int_max_str_digits() to increase the limit''))
                     else if dropWhile is_space rest \<noteq> [] then invalid
                     else Inr (if negative then - int n else int n)))"

fun py_int :: "pyval \<Rightarrow> exn + int" where
  "py_int (VInt n) = Inr n"
| "py_int (VStr s) = int_of_str s"

text \<open>\<open>base64.b64encode(bytes).decode('utf-8')\<close>.\<close>

definition b64c :: "nat \<Rightarrow> char" where
  "b64c n = ''ABCDEFGHIJKLMNOPQRSTUVWXYZabcdefghijklmnopqrstuvwxyz0123456789+/'' ! (n mod 64)"

fun b64encode :: "8 word list \<Rightarrow> string" where
  "b64encode [] = []"
| "b64encode [a] =
     (let x = unat a in [b64c (x div 4), b64c (x mod 4 * 16), CHR ''='', CHR ''=''])"
| "b64encode [a, b] =
     (let x = unat a * 256 + unat b
      in [b64c (x div 1024), b64c (x div 16 mod 64), b64c (x mod 16 * 4), CHR ''=''])"
| "b64encode (a # b # c # rest) =
     (let x = unat a * 65536 + unat b * 256 + unat c
      in [b64c (x div 262144), b64c (x div 4096 mod 64), b64c (x div 64 mod 64),
          b64c (x mod 64)] @ b64encode rest)"

text \<open>\<open>dict.get(key)\<close> on a dictionary object; \<open>None\<close> when the key is absent or the
  object is not a dictionary.\<close>

fun get :: "pyobj \<Rightarrow> string \<Rightarrow> pyobj option" where
  "get (PDict kvs) k = map_of kvs k"
| "get _ k = None"

section \<open>The environment: browser engine, logger, dataset\<close>

text \<open>
  A \<open>Locator\<close> is built lazily by \<open>page.locator(selector)\<close> or
  \<open>page.get_by_text(text, exact=False)\<close>; building one never touches the page.
\<close>

datatype Locator = PageLocator string | GetByText string

type_synonym handle = nat

record proxy_config =
  server :: string
  username :: "string option"
  password :: "string option"

text \<open>
  The browser engine (Playwright), the platform (\<open>Actor.get_env\<close>) and the clock are
  outside the program. They are a record of operations on a world \<open>'w\<close>: an operation
  takes the world and returns its result, or the error the engine raised, with the world
  after it. \<open>page_*\<close> are the methods of \<open>self.page\<close>, \<open>loc_*\<close> the methods of
  \<open>locator.first\<close>; \<open>execute_action\<close> runs only after \<open>launch\<close> has bound the page.
\<close>

record 'w engine =
  time_ms :: "'w \<Rightarrow> int"
  now_iso :: "'w \<Rightarrow> string"
  sleep_ms :: "int \<Rightarrow> 'w \<Rightarrow> 'w"
  page_goto :: "string \<Rightarrow> 'w \<Rightarrow> (pw_error + unit) \<times> 'w"
  page_url :: "'w \<Rightarrow> string"
  page_title :: "'w \<Rightarrow> (pw_error + string) \<times> 'w"
  page_content :: "'w \<Rightarrow> (pw_error + string) \<times> 'w"
  page_go_back :: "'w \<Rightarrow> (pw_error + unit) \<times> 'w"
  page_go_forward :: "'w \<Rightarrow> (pw_error + unit) \<times> 'w"
  page_reload :: "'w \<Rightarrow> (pw_error + unit) \<times> 'w"
  page_screenshot :: "'w \<Rightarrow> (pw_error + 8 word list) \<times> 'w"
  page_evaluate :: "string \<Rightarrow> 'w \<Rightarrow> (pw_error + pyobj) \<times> 'w"
  loc_wait_for :: "Locator \<Rightarrow> int \<Rightarrow> 'w \<Rightarrow> (pw_error + unit) \<times> 'w"
  loc_click :: "Locator \<Rightarrow> int \<Rightarrow> 'w \<Rightarrow> (pw_error + unit) \<times> 'w"
  loc_type :: "Locator \<Rightarrow> string \<Rightarrow> 'w \<Rightarrow> (pw_error + unit) \<times> 'w"
  loc_fill :: "Locator \<Rightarrow> string \<Rightarrow> 'w \<Rightarrow> (pw_error + unit) \<times> 'w"
  loc_select_option :: "Locator \<Rightarrow> string \<Rightarrow> 'w \<Rightarrow> (pw_error + unit) \<times> 'w"
  loc_check :: "Locator \<Rightarrow> 'w \<Rightarrow> (pw_error + unit) \<times> 'w"
  loc_uncheck :: "Locator \<Rightarrow> 'w \<Rightarrow> (pw_error + unit) \<times> 'w"
  loc_hover :: "Locator \<Rightarrow> 'w \<Rightarrow> (pw_error + unit) \<times> 'w"
  loc_focus :: "Locator \<Rightarrow> 'w \<Rightarrow> (pw_error + unit) \<times> 'w"
  loc_press :: "Locator \<Rightarrow> string \<Rightarrow> 'w \<Rightarrow> (pw_error + unit) \<times> 'w"
  loc_text_content :: "Locator \<Rightarrow> 'w \<Rightarrow> (pw_error + string option) \<times> 'w"
  loc_get_attribute :: "Locator \<Rightarrow> string \<Rightarrow> 'w \<Rightarrow> (pw_error + string option) \<times> 'w"
  loc_inner_html :: "Locator \<Rightarrow> 'w \<Rightarrow> (pw_error + string) \<times> 'w"
  get_env :: "'w \<Rightarrow> pw_error + (string \<Rightarrow> string option)"
  playwright_start :: "'w \<Rightarrow> (pw_error + handle) \<times> 'w"
  browser_launch ::
    "handle \<Rightarrow> BrowserType \<Rightarrow> bool \<Rightarrow> proxy_config option \<Rightarrow> 'w \<Rightarrow> (pw_error + handle) \<times> 'w"
  new_context :: "handle \<Rightarrow> proxy_config option \<Rightarrow> 'w \<Rightarrow> (pw_error + handle) \<times> 'w"
  add_init_script :: "handle \<Rightarrow> 'w \<Rightarrow> (pw_error + unit) \<times> 'w"
  new_page :: "handle \<Rightarrow> 'w \<Rightarrow> (pw_error + handle) \<times> 'w"
  context_close :: "handle \<Rightarrow> 'w \<Rightarrow> (pw_error + unit) \<times> 'w"
  browser_close :: "handle \<Rightarrow> 'w \<Rightarrow> (pw_error + unit) \<times> 'w"
  playwright_stop :: "handle \<Rightarrow> 'w \<Rightarrow> (pw_error + unit) \<times> 'w"
  set_value :: "string \<Rightarrow> pyobj list \<Rightarrow> 'w \<Rightarrow> (pw_error + unit) \<times> 'w"

text \<open>
  What the run leaves behind for an observer, in the order it happens: the messages
  handed to the logger (one constructor per logging call of the source, holding the
  values its message interpolates) and the records pushed to the dataset with
  \<open>Actor.push_data\<close>.
\<close>

datatype log =
    Trying string string
  | FoundUsing string
  | StrategyFailed string string
  | ActionFailed string string
  | UsingApifyProxy string
  | ProxyConfigFailed string
  | UsingCustomProxy string
  | StealthEnabled
  | BrowserLaunched string bool
  | LaunchFailed string
  | BrowserClosed
  | ErrorClosing string
  | NoInputProvided
  | LoadedDefaults
  | ReceivedInput actor_input
  | UsingTemplate string
  | GeneratedFromTemplate nat
  | BrowserInitialized string
  | ExecutingActions nat
  | Executing nat nat "string option"
  | ActionSuccess int
  | ActionFailure "string option"
  | Completed
  | Stats stats
  | ExportFailed string
  | Exported string
  | ActorFailed string

datatype event = Logged log | Pushed pyobj

record 'w env =
  world :: 'w
  trace :: "event list"

definition logger :: "log \<Rightarrow> 'w env \<Rightarrow> 'w env" where
  "logger m s = s\<lparr>trace := trace s @ [Logged m]\<rparr>"

definition push_data :: "pyobj \<Rightarrow> 'w env \<Rightarrow> 'w env" where
  "push_data d s = s\<lparr>trace := trace s @ [Pushed d]\<rparr>"

section \<open>Locator strategy: \<open>LocatorStrategy.find_element\<close>\<close>

text \<open>The strategy list built from \<open>selector_type\<close>.\<close>

definition strategies :: "SelectorType \<Rightarrow> string \<Rightarrow> (string \<times> string) list" where
  "strategies sel_type sel =
     (if sel_type = AUTO
      then [(''css'', sel), (''xpath'', sel), (''text'', sel), (''role'', sel)]
      else [(SelectorType_value sel_type, sel)])"

text \<open>The \<open>if/elif\<close> chain that builds the locator of one strategy; \<open>None\<close> is its
  final \<open>else: continue\<close>.\<close>

definition strategy_locator :: "string \<Rightarrow> string \<Rightarrow> Locator option" where
  "strategy_locator strategy_name strategy_value =
     (if strategy_name = ''css'' then Some (PageLocator (''css='' @ strategy_value))
      else if strategy_name = ''xpath'' then Some (PageLocator (''xpath='' @ strategy_value))
      else if strategy_name = ''text'' then Some (GetByText strategy_value)
      else if strategy_name = ''role'' then Some (PageLocator (''role='' @ strategy_value))
      else None)"

text \<open>The \<open>for\<close> loop over the strategies. Both exception classes of the engine are
  caught and the loop continues; a locator that became visible is returned at once.\<close>

fun try_strategies ::
  "'w engine \<Rightarrow> int \<Rightarrow> (string \<times> string) list \<Rightarrow> 'w env \<Rightarrow> Locator option \<times> 'w env" where
  "try_strategies E tmo [] s = (None, s)"
| "try_strategies E tmo ((strategy_name, strategy_value) # rest) s =
     (let s1 = logger (Trying strategy_name strategy_value) s in
      case strategy_locator strategy_name strategy_value of
        None \<Rightarrow> try_strategies E tmo rest s1
      | Some locator \<Rightarrow>
          (case loc_wait_for E locator tmo (world s1) of
             (Inr u, w) \<Rightarrow> (Some locator, logger (FoundUsing strategy_name) (s1\<lparr>world := w\<rparr>))
           | (Inl (TimeoutError m), w) \<Rightarrow>
               try_strategies E tmo rest
                 (logger (StrategyFailed strategy_name m) (s1\<lparr>world := w\<rparr>))
           | (Inl (Error m), w) \<Rightarrow>
               try_strategies E tmo rest
                 (logger (StrategyFailed strategy_name m) (s1\<lparr>world := w\<rparr>))))"

definition find_element ::
  "'w engine \<Rightarrow> string \<Rightarrow> SelectorType \<Rightarrow> int \<Rightarrow> 'w env \<Rightarrow> Locator option \<times> 'w env" where
  "find_element E sel sel_type tmo s =
     try_strategies E tmo (strategies sel_type sel) s"

section \<open>Action executor: \<open>BrowserController.execute_action\<close>\<close>

record BrowserController =
  browser_type :: BrowserType
  browser :: "handle option"
  "context" :: "handle option"
  page :: "handle option"
  playwright :: "handle option"
  action_count :: nat
  start_time :: "string option"

text \<open>
  Statements that may raise are sequenced with \<open>bind_exn\<close>: the first exception ends
  the sequence, as in Python. \<open>call\<close> awaits one engine operation, \<open>raise\<close> raises,
  \<open>return\<close> ends normally.
\<close>

definition bind_exn ::
  "('s \<Rightarrow> (exn + 'a) \<times> 's) \<Rightarrow> ('a \<Rightarrow> 's \<Rightarrow> (exn + 'b) \<times> 's) \<Rightarrow> 's \<Rightarrow> (exn + 'b) \<times> 's" where
  "bind_exn m f s = (case m s of (Inl e, s1) \<Rightarrow> (Inl e, s1) | (Inr x, s1) \<Rightarrow> f x s1)"

definition return :: "'a \<Rightarrow> 's \<Rightarrow> (exn + 'a) \<times> 's" where
  "return x s = (Inr x, s)"

definition raise :: "exn \<Rightarrow> 's \<Rightarrow> (exn + 'a) \<times> 's" where
  "raise e s = (Inl e, s)"

definition call :: "('w \<Rightarrow> (pw_error + 'a) \<times> 'w) \<Rightarrow> 'w env \<Rightarrow> (exn + 'a) \<times> 'w env" where
  "call f s =
     (case f (world s) of
        (Inl e, w) \<Rightarrow> (Inl (Playwright e), s\<lparr>world := w\<rparr>)
      | (Inr x, w) \<Rightarrow> (Inr x, s\<lparr>world := w\<rparr>))"

text \<open>\<open>if not action.selector: raise ValueError(msg)\<close>, \<open>if not action.value: raise \<dots>\<close>
  and \<open>if action.value is None: raise \<dots>\<close>; each yields the field when it passes.\<close>

definition require_selector :: "Action \<Rightarrow> string \<Rightarrow> 's \<Rightarrow> (exn + string) \<times> 's" where
  "require_selector a msg =
     (case selector a of
        None \<Rightarrow> raise (ValueError msg)
      | Some sel \<Rightarrow> if sel = [] then raise (ValueError msg) else return sel)"

definition require_truthy_value :: "Action \<Rightarrow> string \<Rightarrow> 's \<Rightarrow> (exn + pyval) \<times> 's" where
  "require_truthy_value a msg =
     (case value a of
        None \<Rightarrow> raise (ValueError msg)
      | Some v \<Rightarrow> if truthy_val (Some v) then return v else raise (ValueError msg))"

definition require_value :: "Action \<Rightarrow> string \<Rightarrow> 's \<Rightarrow> (exn + pyval) \<times> 's" where
  "require_value a msg =
     (case value a of None \<Rightarrow> raise (ValueError msg) | Some v \<Rightarrow> return v)"

text \<open>\<open>locator = await LocatorStrategy.find_element(self.page, action.selector,
  action.selector_type, action.timeout)\<close> followed by
  \<open>if not locator: raise ValueError(msg + action.selector)\<close>.\<close>

definition locate :: "'w engine \<Rightarrow> Action \<Rightarrow> string \<Rightarrow> string \<Rightarrow> 'w env \<Rightarrow> (exn + Locator) \<times> 'w env" where
  "locate E a sel msg s =
     (case find_element E sel (selector_type a) (timeout a) s of
        (None, s1) \<Rightarrow> raise (ValueError (msg @ sel)) s1
      | (Some locator, s1) \<Rightarrow> return locator s1)"

definition py_int_exn :: "pyval \<Rightarrow> 's \<Rightarrow> (exn + int) \<times> 's" where
  "py_int_exn v = (case py_int v of Inl e \<Rightarrow> raise e | Inr n \<Rightarrow> return n)"

definition opt_obj :: "string option \<Rightarrow> pyobj" where
  "opt_obj x = (case x of None \<Rightarrow> PNone | Some t \<Rightarrow> PStr t)"

subsection \<open>Action implementations\<close>

text \<open>
  One definition per branch of \<open>execute_action\<close>. A branch returns the result it has
  updated, or the exception it raised: no branch assigns to \<open>result\<close> before its last
  statement that can raise, so the result the handler sees is the initial one.
\<close>

definition navigate_impl ::
  "'w engine \<Rightarrow> Action \<Rightarrow> ActionResult \<Rightarrow> 'w env \<Rightarrow> (exn + ActionResult) \<times> 'w env" where
  "navigate_impl E a result =
     bind_exn (require_truthy_value a ''Navigate action requires 'value' (URL)'') (\<lambda>v.
     bind_exn (call (page_goto E (str_val v))) (\<lambda>u s.
     return (result\<lparr>success := True, output := PStr (page_url E (world s))\<rparr>) s))"

definition click_impl ::
  "'w engine \<Rightarrow> Action \<Rightarrow> ActionResult \<Rightarrow> 'w env \<Rightarrow> (exn + ActionResult) \<times> 'w env" where
  "click_impl E a result =
     bind_exn (require_selector a (''Click action requires '' @ quoted ''selector'')) (\<lambda>sel.
     bind_exn (locate E a sel ''Element not found: '') (\<lambda>locator.
     bind_exn (call (loc_click E locator (timeout a))) (\<lambda>u.
     return (result\<lparr>success := True\<rparr>))))"

definition type_impl ::
  "'w engine \<Rightarrow> Action \<Rightarrow> ActionResult \<Rightarrow> 'w env \<Rightarrow> (exn + ActionResult) \<times> 'w env" where
  "type_impl E a result =
     bind_exn (require_selector a (''Type action requires '' @ quoted ''selector'')) (\<lambda>sel.
     bind_exn (require_value a ''Type action requires 'value' (text to type)'') (\<lambda>v.
     bind_exn (locate E a sel ''Element not found: '') (\<lambda>locator.
     bind_exn (call (loc_type E locator (str_val v))) (\<lambda>u.
     return (result\<lparr>success := True\<rparr>)))))"

definition fill_impl ::
  "'w engine \<Rightarrow> Action \<Rightarrow> ActionResult \<Rightarrow> 'w env \<Rightarrow> (exn + ActionResult) \<times> 'w env" where
  "fill_impl E a result =
     bind_exn (require_selector a (''Fill action requires '' @ quoted ''selector'')) (\<lambda>sel.
     bind_exn (require_value a (''Fill action requires '' @ quoted ''value'')) (\<lambda>v.
     bind_exn (locate E a sel ''Element not found: '') (\<lambda>locator.
     bind_exn (call (loc_fill E locator (str_val v))) (\<lambda>u.
     return (result\<lparr>success := True\<rparr>)))))"

definition select_impl ::
  "'w engine \<Rightarrow> Action \<Rightarrow> ActionResult \<Rightarrow> 'w env \<Rightarrow> (exn + ActionResult) \<times> 'w env" where
  "select_impl E a result =
     bind_exn (require_selector a (''Select action requires '' @ quoted ''selector'')) (\<lambda>sel.
     bind_exn (require_value a ''Select action requires 'value' (option value)'') (\<lambda>v.
     bind_exn (locate E a sel ''Element not found: '') (\<lambda>locator.
     bind_exn (call (loc_select_option E locator (str_val v))) (\<lambda>u.
     return (result\<lparr>success := True\<rparr>)))))"

definition check_impl ::
  "'w engine \<Rightarrow> Action \<Rightarrow> ActionResult \<Rightarrow> 'w env \<Rightarrow> (exn + ActionResult) \<times> 'w env" where
  "check_impl E a result =
     bind_exn (require_selector a (''Check action requires '' @ quoted ''selector'')) (\<lambda>sel.
     bind_exn (locate E a sel ''Element not found: '') (\<lambda>locator.
     bind_exn (call (loc_check E locator)) (\<lambda>u.
     return (result\<lparr>success := True\<rparr>))))"

definition uncheck_impl ::
  "'w engine \<Rightarrow> Action \<Rightarrow> ActionResult \<Rightarrow> 'w env \<Rightarrow> (exn + ActionResult) \<times> 'w env" where
  "uncheck_impl E a result =
     bind_exn (require_selector a (''Uncheck action requires '' @ quoted ''selector'')) (\<lambda>sel.
     bind_exn (locate E a sel ''Element not found: '') (\<lambda>locator.
     bind_exn (call (loc_uncheck E locator)) (\<lambda>u.
     return (result\<lparr>success := True\<rparr>))))"

text \<open>\<open>_screenshot\<close> wraps whatever the engine raises in a \<open>ValueError\<close>.\<close>

definition screenshot_impl ::
  "'w engine \<Rightarrow> Action \<Rightarrow> ActionResult \<Rightarrow> 'w env \<Rightarrow> (exn + ActionResult) \<times> 'w env" where
  "screenshot_impl E a result s =
     (case call (page_screenshot E) s of
        (Inr screenshot_bytes, s1) \<Rightarrow>
          return (result\<lparr>screenshot_base64 := Some (b64encode screenshot_bytes),
                         success := True,
                         output := PStr (''Screenshot captured ('' @
                                     show_nat (length screenshot_bytes) @ '' bytes)'')\<rparr>) s1
      | (Inl e, s1) \<Rightarrow> raise (ValueError (''Screenshot failed: '' @ str_exn e)) s1)"

definition extract_text_impl ::
  "'w engine \<Rightarrow> Action \<Rightarrow> ActionResult \<Rightarrow> 'w env \<Rightarrow> (exn + ActionResult) \<times> 'w env" where
  "extract_text_impl E a result =
     (if \<not> truthy_str (selector a) then
        bind_exn (call (page_content E)) (\<lambda>c.
        return (result\<lparr>output := PStr c, success := True\<rparr>))
      else
        bind_exn (require_selector a []) (\<lambda>sel.
        bind_exn (locate E a sel ''Element not found: '') (\<lambda>locator.
        bind_exn (call (loc_text_content E locator)) (\<lambda>t.
        return (result\<lparr>output := opt_obj t, success := True\<rparr>)))))"

definition extract_attributes_impl ::
  "'w engine \<Rightarrow> Action \<Rightarrow> ActionResult \<Rightarrow> 'w env \<Rightarrow> (exn + ActionResult) \<times> 'w env" where
  "extract_attributes_impl E a result =
     bind_exn (require_selector a (''Extract attributes requires '' @ quoted ''selector'')) (\<lambda>sel.
     bind_exn (locate E a sel ''Element not found: '') (\<lambda>element.
     bind_exn (call (loc_text_content E element)) (\<lambda>x_text.
     bind_exn (call (loc_get_attribute E element ''class'')) (\<lambda>x_class.
     bind_exn (call (loc_get_attribute E element ''id'')) (\<lambda>x_id.
     bind_exn (call (loc_get_attribute E element ''href'')) (\<lambda>x_href.
     bind_exn (call (loc_get_attribute E element ''src'')) (\<lambda>x_src.
     bind_exn (call (loc_get_attribute E element ''value'')) (\<lambda>x_value.
     bind_exn (call (loc_get_attribute E element ''placeholder'')) (\<lambda>x_placeholder.
     return (result\<lparr>output := PDict
                [(''text'', opt_obj x_text), (''class'', opt_obj x_class),
                 (''id'', opt_obj x_id), (''href'', opt_obj x_href),
                 (''src'', opt_obj x_src), (''value'', opt_obj x_value),
                 (''placeholder'', opt_obj x_placeholder)],
              success := True\<rparr>))))))))))"

text \<open>
  \<open>n / 1000\<close> on an integer \<open>n\<close>: the quotient is rounded to the nearest float, and
  \<open>OverflowError\<close> is raised when that is beyond the largest one, that is when the
  quotient is at least \<open>2 ^ 1024 - 2 ^ 970\<close> in absolute value. The delay is kept as the
  integer number of milliseconds.
\<close>

definition float_overflow_bound :: int where
  "float_overflow_bound = 1000 * (2 ^ 1024 - 2 ^ 970)"

definition div_1000 :: "int \<Rightarrow> 's \<Rightarrow> (exn + int) \<times> 's" where
  "div_1000 n =
     (if float_overflow_bound \<le> \<bar>n\<bar>
      then raise (OverflowError ''integer division result too large for a float'')
      else return n)"

text \<open>\<open>asyncio.sleep(int(action.value) / 1000)\<close>: the engine's \<open>sleep_ms\<close> takes the
  milliseconds.\<close>

definition wait_impl ::
  "'w engine \<Rightarrow> Action \<Rightarrow> ActionResult \<Rightarrow> 'w env \<Rightarrow> (exn + ActionResult) \<times> 'w env" where
  "wait_impl E a result =
     bind_exn (require_value a ''Wait action requires 'value' (milliseconds)'') (\<lambda>v.
     bind_exn (py_int_exn v) (\<lambda>n.
     bind_exn (div_1000 n) (\<lambda>ms s.
     return (result\<lparr>success := True\<rparr>) (s\<lparr>world := sleep_ms E ms (world s)\<rparr>))))"

definition scroll_impl ::
  "'w engine \<Rightarrow> Action \<Rightarrow> ActionResult \<Rightarrow> 'w env \<Rightarrow> (exn + ActionResult) \<times> 'w env" where
  "scroll_impl E a result =
     (case value a of
        None \<Rightarrow>
          bind_exn (call (page_evaluate E ''window.scrollTo(0, document.body.scrollHeight)'')) (\<lambda>u.
          return (result\<lparr>success := True\<rparr>))
      | Some v \<Rightarrow>
          bind_exn (py_int_exn v) (\<lambda>pixels.
          bind_exn (call (page_evaluate E (''window.scrollBy(0, '' @ show_int pixels @ '')''))) (\<lambda>u.
          return (result\<lparr>success := True\<rparr>))))"

definition hover_impl ::
  "'w engine \<Rightarrow> Action \<Rightarrow> ActionResult \<Rightarrow> 'w env \<Rightarrow> (exn + ActionResult) \<times> 'w env" where
  "hover_impl E a result =
     bind_exn (require_selector a (''Hover action requires '' @ quoted ''selector'')) (\<lambda>sel.
     bind_exn (locate E a sel ''Element not found: '') (\<lambda>locator.
     bind_exn (call (loc_hover E locator)) (\<lambda>u.
     return (result\<lparr>success := True\<rparr>))))"

definition focus_impl ::
  "'w engine \<Rightarrow> Action \<Rightarrow> ActionResult \<Rightarrow> 'w env \<Rightarrow> (exn + ActionResult) \<times> 'w env" where
  "focus_impl E a result =
     bind_exn (require_selector a (''Focus action requires '' @ quoted ''selector'')) (\<lambda>sel.
     bind_exn (locate E a sel ''Element not found: '') (\<lambda>locator.
     bind_exn (call (loc_focus E locator)) (\<lambda>u.
     return (result\<lparr>success := True\<rparr>))))"

definition press_key_impl ::
  "'w engine \<Rightarrow> Action \<Rightarrow> ActionResult \<Rightarrow> 'w env \<Rightarrow> (exn + ActionResult) \<times> 'w env" where
  "press_key_impl E a result =
     bind_exn (require_selector a (''Press key action requires '' @ quoted ''selector'')) (\<lambda>sel.
     bind_exn (require_truthy_value a ''Press key action requires 'value' (key name)'') (\<lambda>v.
     bind_exn (locate E a sel ''Element not found: '') (\<lambda>locator.
     bind_exn (call (loc_press E locator (str_val v))) (\<lambda>u.
     return (result\<lparr>success := True\<rparr>)))))"

definition get_html_impl ::
  "'w engine \<Rightarrow> Action \<Rightarrow> ActionResult \<Rightarrow> 'w env \<Rightarrow> (exn + ActionResult) \<times> 'w env" where
  "get_html_impl E a result =
     (if \<not> truthy_str (selector a) then
        bind_exn (call (page_content E)) (\<lambda>c.
        return (result\<lparr>output := PStr c, success := True\<rparr>))
      else
        bind_exn (require_selector a []) (\<lambda>sel.
        bind_exn (locate E a sel ''Element not found: '') (\<lambda>locator.
        bind_exn (call (loc_inner_html E locator)) (\<lambda>h.
        return (result\<lparr>output := PStr h, success := True\<rparr>)))))"

definition evaluate_impl ::
  "'w engine \<Rightarrow> Action \<Rightarrow> ActionResult \<Rightarrow> 'w env \<Rightarrow> (exn + ActionResult) \<times> 'w env" where
  "evaluate_impl E a result =
     bind_exn (require_truthy_value a ''Evaluate action requires 'value' (JavaScript code)'') (\<lambda>v.
     bind_exn (call (page_evaluate E (str_val v))) (\<lambda>r.
     return (result\<lparr>output := r, success := True\<rparr>)))"

definition wait_for_element_impl ::
  "'w engine \<Rightarrow> Action \<Rightarrow> ActionResult \<Rightarrow> 'w env \<Rightarrow> (exn + ActionResult) \<times> 'w env" where
  "wait_for_element_impl E a result =
     bind_exn (require_selector a (''Wait for element requires '' @ quoted ''selector'')) (\<lambda>sel.
     bind_exn (locate E a sel ''Element not found or timeout: '') (\<lambda>locator.
     return (result\<lparr>success := True\<rparr>)))"

text \<open>The \<open>if/elif\<close> chain of \<open>execute_action\<close> over the action type. Its final
  \<open>else\<close> (unknown action type) has no counterpart: every member of \<open>ActionType\<close> has
  a branch.\<close>

fun dispatch ::
  "'w engine \<Rightarrow> ActionType \<Rightarrow> Action \<Rightarrow> ActionResult \<Rightarrow> 'w env \<Rightarrow> (exn + ActionResult) \<times> 'w env" where
  "dispatch E NAVIGATE a result = navigate_impl E a result"
| "dispatch E CLICK a result = click_impl E a result"
| "dispatch E TYPE' a result = type_impl E a result"
| "dispatch E FILL a result = fill_impl E a result"
| "dispatch E SELECT a result = select_impl E a result"
| "dispatch E CHECK a result = check_impl E a result"
| "dispatch E UNCHECK a result = uncheck_impl E a result"
| "dispatch E SCREENSHOT a result = screenshot_impl E a result"
| "dispatch E EXTRACT_TEXT a result = extract_text_impl E a result"
| "dispatch E EXTRACT_ATTRIBUTES a result = extract_attributes_impl E a result"
| "dispatch E WAIT a result = wait_impl E a result"
| "dispatch E SCROLL a result = scroll_impl E a result"
| "dispatch E HOVER a result = hover_impl E a result"
| "dispatch E FOCUS a result = focus_impl E a result"
| "dispatch E PRESS_KEY a result = press_key_impl E a result"
| "dispatch E GET_HTML a result = get_html_impl E a result"
| "dispatch E EVALUATE a result = evaluate_impl E a result"
| "dispatch E WAIT_FOR_ELEMENT a result = wait_for_element_impl E a result"
| "dispatch E GET_TITLE a result =
     bind_exn (call (page_title E)) (\<lambda>t. return (result\<lparr>output := PStr t, success := True\<rparr>))"
| "dispatch E GET_URL a result =
     (\<lambda>s. return (result\<lparr>output := PStr (page_url E (world s)), success := True\<rparr>) s)"
| "dispatch E GO_BACK a result =
     bind_exn (call (page_go_back E)) (\<lambda>u. return (result\<lparr>success := True\<rparr>))"
| "dispatch E GO_FORWARD a result =
     bind_exn (call (page_go_forward E)) (\<lambda>u. return (result\<lparr>success := True\<rparr>))"
| "dispatch E RELOAD a result =
     bind_exn (call (page_reload E)) (\<lambda>u. return (result\<lparr>success := True\<rparr>))"

text \<open>
  \<open>execute_action\<close>: a fresh failed result, the dispatch inside \<open>try\<close>, the action
  counter incremented when nothing was raised, and \<open>except Exception\<close> turning whatever
  was raised into the result's error message. The elapsed time is set on both paths.
\<close>

definition execute_action ::
  "'w engine \<Rightarrow> BrowserController \<Rightarrow> Action \<Rightarrow> 'w env \<Rightarrow> ActionResult \<times> BrowserController \<times> 'w env" where
  "execute_action E self a s =
     (let start_time = time_ms E (world s);
          result = \<lparr>success = False, action = a, output = PNone, error = None,
                    execution_time_ms = 0, screenshot_base64 = None,
                    timestamp = now_iso E (world s)\<rparr>
      in case dispatch E (type a) a result s of
           (Inr result1, s1) \<Rightarrow>
             (result1\<lparr>execution_time_ms := time_ms E (world s1) - start_time\<rparr>,
              self\<lparr>action_count := action_count self + 1\<rparr>, s1)
         | (Inl e, s1) \<Rightarrow>
             (result\<lparr>error := Some (str_exn e),
                     execution_time_ms := time_ms E (world s1) - start_time\<rparr>,
              self, logger (ActionFailed (ActionType_value (type a)) (str_exn e)) s1))"

text \<open>\<open>ActionResult.to_dict\<close>: five fixed keys, then each optional key only when its
  value is truthy.\<close>

definition to_dict :: "ActionResult \<Rightarrow> pyobj" where
  "to_dict self =
     PDict
       ([(''type'', PStr (ActionType_value (type (action self)))),
         (''success'', PBool (success self)),
         (''execution_time_ms'', PInt (execution_time_ms self)),
         (''output'', output self),
         (''timestamp'', PStr (timestamp self))]
        @ (case selector (action self) of
             Some x \<Rightarrow> if x \<noteq> [] then [(''selector'', PStr x)] else [] | None \<Rightarrow> [])
        @ (case value (action self) of
             Some v \<Rightarrow> if truthy_val (Some v) then [(''value'', obj_val v)] else [] | None \<Rightarrow> [])
        @ (case description (action self) of
             Some x \<Rightarrow> if x \<noteq> [] then [(''description'', PStr x)] else [] | None \<Rightarrow> [])
        @ (case error self of
             Some x \<Rightarrow> if x \<noteq> [] then [(''error'', PStr x)] else [] | None \<Rightarrow> [])
        @ (case screenshot_base64 self of
             Some x \<Rightarrow> if x \<noteq> [] then [(''has_screenshot'', PBool True)] else [] | None \<Rightarrow> []))"

section \<open>Session lifecycle: \<open>BrowserController.launch\<close> and \<open>close\<close>\<close>

fun join :: "string \<Rightarrow> string list \<Rightarrow> string" where
  "join sep [] = []"
| "join sep [x] = x"
| "join sep (x # y # rest) = x @ sep @ join sep (y # rest)"

definition BrowserController_init :: "BrowserType \<Rightarrow> BrowserController" where
  "BrowserController_init bt =
     \<lparr>browser_type = bt, browser = None, context = None, page = None, playwright = None,
      action_count = 0, start_time = None\<rparr>"

text \<open>The proxy part of \<open>launch\<close>. A failure while reading the platform environment is
  logged and leaves the launch without a proxy.\<close>

definition configure_proxy :: "'w engine \<Rightarrow> proxy option \<Rightarrow> 'w env \<Rightarrow> proxy_config option \<times> 'w env" where
  "configure_proxy E prx s =
     (case prx of
        None \<Rightarrow> (None, s)
      | Some p \<Rightarrow>
          if use_apify_proxy p then
            (case get_env E (world s) of
               Inl e \<Rightarrow> (None, logger (ProxyConfigFailed (str_pw e)) s)
             | Inr env \<Rightarrow>
                 (let apify_proxy_url =
                        (case env ''APIFY_PROXY_HOSTNAME'' of
                           None \<Rightarrow> ''proxy.apify.com'' | Some h \<Rightarrow> h);
                      apify_proxy_password =
                        (case env ''APIFY_PROXY_PASSWORD'' of None \<Rightarrow> [] | Some x \<Rightarrow> x)
                  in if apify_proxy_password \<noteq> [] then
                       (let groups_str = join '','' (apify_proxy_groups p)
                        in (Some \<lparr>server = ''http://'' @ apify_proxy_url @ '':8000'',
                                  username = Some (if groups_str \<noteq> [] then ''groups-'' @ groups_str
                                                   else ''auto''),
                                  password = Some apify_proxy_password\<rparr>,
                            logger (UsingApifyProxy (if groups_str \<noteq> [] then groups_str
                                                     else ''auto'')) s))
                     else (None, s)))
          else
            (case custom_proxy_url p of
               None \<Rightarrow> (None, s)
             | Some u \<Rightarrow>
                 if u \<noteq> [] then
                   (Some \<lparr>server = u, username = None, password = None\<rparr>,
                    logger (UsingCustomProxy u) s)
                 else (None, s)))"

definition apply_stealth_mode :: "'w engine \<Rightarrow> handle \<Rightarrow> 'w env \<Rightarrow> (exn + unit) \<times> 'w env" where
  "apply_stealth_mode E ctx =
     bind_exn (call (add_init_script E ctx)) (\<lambda>u s. return () (logger StealthEnabled s))"

text \<open>\<open>except Exception as e: logger.error(\<dots>); raise\<close> of \<open>launch\<close>: the fields
  assigned so far stay on the controller.\<close>

definition launch_failed ::
  "exn \<Rightarrow> BrowserController \<Rightarrow> 'w env \<Rightarrow> (exn option \<times> BrowserController) \<times> 'w env" where
  "launch_failed e self s = ((Some e, self), logger (LaunchFailed (str_exn e)) s)"

text \<open>
  \<open>launch\<close> acquires, in this order, the Playwright driver, the browser, the context
  and the page, and assigns each to its field as soon as it is acquired. The result is
  the exception that \<open>launch\<close> re-raises (or \<open>None\<close>) and the controller as it was left.
\<close>

definition launch ::
  "'w engine \<Rightarrow> BrowserController \<Rightarrow> bool \<Rightarrow> proxy option \<Rightarrow> bool \<Rightarrow> 'w env
     \<Rightarrow> (exn option \<times> BrowserController) \<times> 'w env" where
  "launch E self headless prx stealth_mode s =
     (case call (playwright_start E) s of
        (Inl e, s1) \<Rightarrow> launch_failed e self s1
      | (Inr pw, s1) \<Rightarrow>
          (let self1 = self\<lparr>playwright := Some pw\<rparr>;
               (proxy_config, s2) = configure_proxy E prx s1
           in case call (browser_launch E pw (browser_type self1) headless proxy_config) s2 of
                (Inl e, s3) \<Rightarrow> launch_failed e self1 s3
              | (Inr b, s3) \<Rightarrow>
                  (let self2 = self1\<lparr>browser := Some b\<rparr>
                   in case call (new_context E b proxy_config) s3 of
                        (Inl e, s4) \<Rightarrow> launch_failed e self2 s4
                      | (Inr ctx, s4) \<Rightarrow>
                          (let self3 = self2\<lparr>context := Some ctx\<rparr>
                           in case (if stealth_mode then apply_stealth_mode E ctx s4
                                    else return () s4) of
                                (Inl e, s5) \<Rightarrow> launch_failed e self3 s5
                              | (Inr u, s5) \<Rightarrow>
                                  (case call (new_page E ctx) s5 of
                                     (Inl e, s6) \<Rightarrow> launch_failed e self3 s6
                                   | (Inr pg, s6) \<Rightarrow>
                                       ((None, self3\<lparr>page := Some pg,
                                                      start_time := Some (now_iso E (world s6))\<rparr>),
                                        logger (BrowserLaunched
                                                  (BrowserType_value (browser_type self3))
                                                  stealth_mode) s6))))))"

text \<open>\<open>if self.x: await self.x.close()\<close>.\<close>

definition when_held ::
  "handle option \<Rightarrow> (handle \<Rightarrow> 'w \<Rightarrow> (pw_error + unit) \<times> 'w) \<Rightarrow> 'w env \<Rightarrow> (exn + unit) \<times> 'w env" where
  "when_held h f = (case h of None \<Rightarrow> return () | Some x \<Rightarrow> call (f x))"

text \<open>
  \<open>close\<close> releases, inside one \<open>try\<close>, the context, the browser and the driver,
  each only when its field is set; the first error ends the sequence and is logged. No
  field is reset, and nothing is raised: \<open>close\<close> returns the environment only.
\<close>

definition close :: "'w engine \<Rightarrow> BrowserController \<Rightarrow> 'w env \<Rightarrow> 'w env" where
  "close E self s =
     (case bind_exn (when_held (context self) (context_close E)) (\<lambda>u.
           bind_exn (when_held (browser self) (browser_close E)) (\<lambda>u.
           when_held (playwright self) (playwright_stop E))) s of
        (Inr u, s1) \<Rightarrow> logger BrowserClosed s1
      | (Inl e, s1) \<Rightarrow> logger (ErrorClosing (str_exn e)) s1)"

section \<open>Templates (src/templates.py)\<close>

definition act :: "string \<Rightarrow> action_data" where
  "act t = \<lparr>d_type = Some t, d_selector = None, d_value = None, d_selector_type = None,
            d_timeout = None, d_description = None, d_metadata = None\<rparr>"

text \<open>\<open>params.get(key, default)\<close> on the template parameters.\<close>

definition param :: "(string \<times> pyval) list \<Rightarrow> string \<Rightarrow> pyval \<Rightarrow> pyval" where
  "param params k d = (case map_of params k of None \<Rightarrow> d | Some v \<Rightarrow> v)"

definition amazon_product_search_script :: "pyval \<Rightarrow> string" where
  \<open>amazon_product_search_script max_results =
     ''\<newline>'' @
     ''                Array.from(document.querySelectorAll('.s-result-item[data-component-type="s-search-result"]'))\<newline>'' @
     ''                    .slice(0, '' @ str_val max_results @ '')\<newline>'' @
     ''                    .map(item => ({\<newline>'' @
     ''                        title: item.querySelector('h2 a span')?.innerText || '' @ [CHR 0x27] @ ''',\<newline>'' @
     ''                        price: item.querySelector('.a-price-whole')?.innerText || 'N/A',\<newline>'' @
     ''                        rating: item.querySelector('.a-icon-alt')?.innerText || 'N/A',\<newline>'' @
     ''                        reviews: item.querySelector('.a-size-base.s-underline-text')?.innerText || '0',\<newline>'' @
     ''                        url: item.querySelector('h2 a')?.href || '' @ [CHR 0x27] @ ''',\<newline>'' @
     ''                        image: item.querySelector('img.s-image')?.src || '' @ [CHR 0x27] @ ''',\<newline>'' @
     ''                        asin: item.getAttribute('data-asin') || '' @ [CHR 0x27] @ '''\<newline>'' @
     ''                    }))\<newline>'' @
     ''                ''\<close>

definition google_search_script :: "pyval \<Rightarrow> string" where
  \<open>google_search_script max_results =
     ''\<newline>'' @
     ''                Array.from(document.querySelectorAll('.g'))\<newline>'' @
     ''                    .slice(0, '' @ str_val max_results @ '')\<newline>'' @
     ''                    .map(item => ({\<newline>'' @
     ''                        title: item.querySelector('h3')?.innerText || '' @ [CHR 0x27] @ ''',\<newline>'' @
     ''                        url: item.querySelector('a')?.href || '' @ [CHR 0x27] @ ''',\<newline>'' @
     ''                        description: item.querySelector('.VwiC3b')?.innerText || '' @ [CHR 0x27] @ '''\<newline>'' @
     ''                    }))\<newline>'' @
     ''                ''\<close>

definition linkedin_profile_script :: string where
  \<open>linkedin_profile_script =
     ''\<newline>'' @
     ''                {\<newline>'' @
     ''                    name: document.querySelector('.pv-top-card--list li:first-child')?.innerText || '' @ [CHR 0x27] @ ''',\<newline>'' @
     ''                    headline: document.querySelector('.pv-top-card--list li:nth-child(2)')?.innerText || '' @ [CHR 0x27] @ ''',\<newline>'' @
     ''                    location: document.querySelector('.pv-top-card--list.pv-top-card--list-bullet li:first-child')?.innerText || '' @ [CHR 0x27] @ ''',\<newline>'' @
     ''                    connections: document.querySelector('.pv-top-card--list.pv-top-card--list-bullet li:nth-child(2)')?.innerText || '' @ [CHR 0x27] @ ''',\<newline>'' @
     ''                    about: document.querySelector('.pv-about__summary-text')?.innerText || '' @ [CHR 0x27] @ '''\<newline>'' @
     ''                }\<newline>'' @
     ''                ''\<close>

definition twitter_scrape_script :: "pyval \<Rightarrow> string" where
  \<open>twitter_scrape_script max_tweets =
     ''\<newline>'' @
     ''                Array.from(document.querySelectorAll('article'))\<newline>'' @
     ''                    .slice(0, '' @ str_val max_tweets @ '')\<newline>'' @
     ''                    .map(tweet => ({\<newline>'' @
     ''                        text: tweet.querySelector('[data-testid="tweetText"]')?.innerText || '' @ [CHR 0x27] @ ''',\<newline>'' @
     ''                        timestamp: tweet.querySelector('time')?.getAttribute('datetime') || '' @ [CHR 0x27] @ ''',\<newline>'' @
     ''                        likes: tweet.querySelector('[data-testid="like"]')?.innerText || '0',\<newline>'' @
     ''                        retweets: tweet.querySelector('[data-testid="retweet"]')?.innerText || '0',\<newline>'' @
     ''                        replies: tweet.querySelector('[data-testid="reply"]')?.innerText || '0'\<newline>'' @
     ''                    }))\<newline>'' @
     ''                ''\<close>

definition google_maps_business_script :: string where
  \<open>google_maps_business_script =
     ''\<newline>'' @
     ''                Array.from(document.querySelectorAll('[role="article"]'))\<newline>'' @
     ''                    .slice(0, 20)\<newline>'' @
     ''                    .map(item => ({\<newline>'' @
     ''                        name: item.querySelector('.fontHeadlineSmall')?.innerText || '' @ [CHR 0x27] @ ''',\<newline>'' @
     ''                        rating: item.querySelector('.MW4etd')?.innerText || 'N/A',\<newline>'' @
     ''                        reviews: item.querySelector('.UY7F9')?.innerText || '0',\<newline>'' @
     ''                        address: item.querySelector('.W4Efsd:nth-of-type(2)')?.innerText || '' @ [CHR 0x27] @ ''',\<newline>'' @
     ''                        type: item.querySelector('.W4Efsd:first-of-type')?.innerText || '' @ [CHR 0x27] @ ''',\<newline>'' @
     ''                        phone: item.querySelector('[data-tooltip="Copy phone number"]')?.innerText || '' @ [CHR 0x27] @ '''\<newline>'' @
     ''                    }))\<newline>'' @
     ''                ''\<close>

definition amazon_product_search :: "(string \<times> pyval) list \<Rightarrow> exn + action_data list" where
  "amazon_product_search params =
     (let search_query = param params ''search_query'' (VStr []);
          max_results = param params ''max_results'' (VInt 20)
      in if \<not> truthy_val (Some search_query)
         then Inl (ValueError ''search_query is required for amazon_product_search template'')
         else Inr
           [(act ''navigate'')\<lparr>d_value := Some (VStr ''https://www.amazon.com'')\<rparr>,
            (act ''fill'')\<lparr>d_selector := Some (''input[name='field-keywords']''),
                           d_value := Some search_query\<rparr>,
            (act ''press_key'')\<lparr>d_selector := Some (''input[name='field-keywords']''),
                                d_value := Some (VStr ''Enter'')\<rparr>,
            (act ''wait_for_element'')
               \<lparr>d_selector := Some (''.s-result-item[data-component-type='s-search-result']''),
                d_timeout := Some 10000\<rparr>,
            (act ''evaluate'')\<lparr>d_value := Some (VStr (amazon_product_search_script max_results))\<rparr>,
            act ''screenshot''])"

definition google_search :: "(string \<times> pyval) list \<Rightarrow> exn + action_data list" where
  "google_search params =
     (let search_query = param params ''search_query'' (VStr []);
          max_results = param params ''max_results'' (VInt 10)
      in if \<not> truthy_val (Some search_query)
         then Inl (ValueError ''search_query is required for google_search template'')
         else Inr
           [(act ''navigate'')
               \<lparr>d_value := Some (VStr (''https://www.google.com/search?q='' @ str_val search_query))\<rparr>,
            (act ''wait_for_element'')\<lparr>d_selector := Some ''#search'', d_timeout := Some 10000\<rparr>,
            (act ''evaluate'')\<lparr>d_value := Some (VStr (google_search_script max_results))\<rparr>,
            act ''screenshot''])"

definition linkedin_profile :: "(string \<times> pyval) list \<Rightarrow> exn + action_data list" where
  "linkedin_profile params =
     (let profile_url = param params ''profile_url'' (VStr [])
      in if \<not> truthy_val (Some profile_url)
         then Inl (ValueError ''profile_url is required for linkedin_profile template'')
         else Inr
           [(act ''navigate'')\<lparr>d_value := Some profile_url\<rparr>,
            (act ''wait_for_element'')\<lparr>d_selector := Some ''.pv-top-card'', d_timeout := Some 15000\<rparr>,
            (act ''evaluate'')\<lparr>d_value := Some (VStr linkedin_profile_script)\<rparr>,
            act ''screenshot''])"

definition twitter_scrape :: "(string \<times> pyval) list \<Rightarrow> exn + action_data list" where
  "twitter_scrape params =
     (let username = param params ''username'' (VStr []);
          max_tweets = param params ''max_tweets'' (VInt 10)
      in if \<not> truthy_val (Some username)
         then Inl (ValueError ''username is required for twitter_scrape template'')
         else Inr
           [(act ''navigate'')\<lparr>d_value := Some (VStr (''https://twitter.com/'' @ str_val username))\<rparr>,
            (act ''wait_for_element'')\<lparr>d_selector := Some ''article'', d_timeout := Some 10000\<rparr>,
            (act ''scroll'')\<lparr>d_value := Some (VStr ''1000'')\<rparr>,
            (act ''wait'')\<lparr>d_value := Some (VStr ''2000'')\<rparr>,
            (act ''evaluate'')\<lparr>d_value := Some (VStr (twitter_scrape_script max_tweets))\<rparr>,
            act ''screenshot''])"

definition google_maps_business :: "(string \<times> pyval) list \<Rightarrow> exn + action_data list" where
  "google_maps_business params =
     (let search_query = param params ''search_query'' (VStr []);
          location = param params ''location'' (VStr [])
      in if \<not> truthy_val (Some search_query)
         then Inl (ValueError ''search_query is required for google_maps_business template'')
         else
           (let search_url = ''https://www.google.com/maps/search/'' @ str_val search_query;
                search_url = (if truthy_val (Some location) then search_url @ ''+'' @ str_val location
                              else search_url)
            in Inr
              [(act ''navigate'')\<lparr>d_value := Some (VStr search_url)\<rparr>,
               (act ''wait_for_element'')\<lparr>d_selector := Some (''[role='article']''),
                                          d_timeout := Some 10000\<rparr>,
               (act ''wait'')\<lparr>d_value := Some (VStr ''3000'')\<rparr>,
               (act ''evaluate'')\<lparr>d_value := Some (VStr google_maps_business_script)\<rparr>,
               act ''screenshot'']))"

text \<open>\<open>TemplateManager.get_template\<close>.\<close>

definition get_template :: "string \<Rightarrow> (string \<times> pyval) list \<Rightarrow> exn + action_data list" where
  "get_template template_type params =
     (if template_type = ''amazon_product_search'' then amazon_product_search params
      else if template_type = ''google_search'' then google_search params
      else if template_type = ''linkedin_profile'' then linkedin_profile params
      else if template_type = ''twitter_scrape'' then twitter_scrape params
      else if template_type = ''google_maps_business'' then google_maps_business params
      else Inl (ValueError (''Unknown template: '' @ template_type)))"

section \<open>Run orchestrator: \<open>PlaywrightMCPActor\<close>\<close>

record PlaywrightMCPActor =
  controller :: "BrowserController option"
  results :: "ActionResult list"
  stats :: stats

definition PlaywrightMCPActor_init :: PlaywrightMCPActor where
  "PlaywrightMCPActor_init =
     \<lparr>controller = None, results = [],
      stats = \<lparr>total_actions = 0, successful_actions = 0, failed_actions = 0,
               total_execution_time_ms = 0, screenshots_captured = 0\<rparr>\<rparr>"

text \<open>The constructors of the enumerations: the member with the given value, or
  \<open>ValueError\<close> with the \<open>repr\<close> of the value in its message.\<close>

definition not_a_valid :: "string option \<Rightarrow> string \<Rightarrow> exn" where
  "not_a_valid x enum =
     ValueError ((case x of None \<Rightarrow> ''None'' | Some v \<Rightarrow> repr_str v) @ '' is not a valid '' @ enum)"

definition ActionType_of :: "string option \<Rightarrow> exn + ActionType" where
  "ActionType_of x =
     (case x of
        None \<Rightarrow> Inl (not_a_valid x ''ActionType'')
      | Some v \<Rightarrow>
          (case find (\<lambda>t. ActionType_value t = v) all_ActionTypes of
             None \<Rightarrow> Inl (not_a_valid x ''ActionType'')
           | Some t \<Rightarrow> Inr t))"

definition SelectorType_of :: "string option \<Rightarrow> exn + SelectorType" where
  "SelectorType_of x =
     (case x of
        None \<Rightarrow> Inl (not_a_valid x ''SelectorType'')
      | Some v \<Rightarrow>
          (case find (\<lambda>t. SelectorType_value t = v) all_SelectorTypes of
             None \<Rightarrow> Inl (not_a_valid x ''SelectorType'')
           | Some t \<Rightarrow> Inr t))"

definition BrowserType_of :: "string option \<Rightarrow> exn + BrowserType" where
  "BrowserType_of x =
     (case x of
        None \<Rightarrow> Inl (not_a_valid x ''BrowserType'')
      | Some v \<Rightarrow>
          (case find (\<lambda>t. BrowserType_value t = v) all_BrowserTypes of
             None \<Rightarrow> Inl (not_a_valid x ''BrowserType'')
           | Some t \<Rightarrow> Inr t))"

text \<open>\<open>d.get(key, default)\<close>.\<close>

definition get_default :: "'a option \<Rightarrow> 'a \<Rightarrow> 'a" where
  "get_default x d = (case x of None \<Rightarrow> d | Some v \<Rightarrow> v)"

text \<open>\<open>_parse_action\<close>: both enumeration constructors may raise.\<close>

definition parse_action :: "action_data \<Rightarrow> exn + Action" where
  "parse_action d =
     (case ActionType_of (d_type d) of
        Inl e \<Rightarrow> Inl e
      | Inr action_type \<Rightarrow>
          (case SelectorType_of (Some (get_default (d_selector_type d) ''auto'')) of
             Inl e \<Rightarrow> Inl e
           | Inr sel_type \<Rightarrow>
               Inr \<lparr>type = action_type, selector = d_selector d, value = d_value d,
                    selector_type = sel_type, timeout = get_default (d_timeout d) 10000,
                    description = d_description d, metadata = d_metadata d\<rparr>))"

text \<open>\<open>_validate_input\<close>, on a dictionary given as its items.\<close>

definition validate_input :: "(string \<times> json_actions) list \<Rightarrow> exn option" where
  "validate_input inp =
     (if inp = [] then Some (ValueError ''Input cannot be empty'')
      else case map_of inp ''actions'' of
             None \<Rightarrow> Some (ValueError ''Input must contain 'actions' array'')
           | Some (NotAList b) \<Rightarrow> Some (ValueError (quoted ''actions'' @ '' must be an array''))
           | Some (ActionList l) \<Rightarrow>
               if length l = 0 then Some (ValueError (quoted ''actions'' @ '' array cannot be empty''))
               else None)"

definition stats_dict :: "stats \<Rightarrow> pyobj" where
  "stats_dict st =
     PDict [(''total_actions'', PInt (int (total_actions st))),
            (''successful_actions'', PInt (int (successful_actions st))),
            (''failed_actions'', PInt (int (failed_actions st))),
            (''total_execution_time_ms'', PInt (total_execution_time_ms st)),
            (''screenshots_captured'', PInt (int (screenshots_captured st)))]"

text \<open>\<open>_prepare_output\<close>; the timestamp is read from the clock of the world.\<close>

definition prepare_output :: "'w engine \<Rightarrow> PlaywrightMCPActor \<Rightarrow> 'w \<Rightarrow> pyobj" where
  "prepare_output E self w =
     PDict [(''success'', PBool (failed_actions (stats self) = 0)),
            (''stats'', stats_dict (stats self)),
            (''actions'', PList (map to_dict (results self))),
            (''timestamp'', PStr (now_iso E w))]"

text \<open>
  \<open>_export_data\<close>: the whole body is inside \<open>try \<dots> except Exception\<close>, so a failed
  export is logged and never raised. The flattening of the actions, the encoder and
  \<open>Actor.set_value\<close> are the export collaborator: one engine operation that takes the
  key and the actions of the output.
\<close>

definition export_data :: "'w engine \<Rightarrow> pyobj \<Rightarrow> string \<Rightarrow> 'w env \<Rightarrow> 'w env" where
  "export_data E data export_format s =
     (let acts = (case get data ''actions'' of Some (PList l) \<Rightarrow> l | _ \<Rightarrow> []);
          key = (if export_format = ''csv'' then Some ''OUTPUT_CSV''
                 else if export_format = ''excel'' then Some ''OUTPUT_EXCEL'' else None)
      in case key of
           None \<Rightarrow> s
         | Some k \<Rightarrow>
             (case call (set_value E k acts) s of
                (Inr u, s1) \<Rightarrow> logger (Exported export_format) s1
              | (Inl e, s1) \<Rightarrow> logger (ExportFailed (str_exn e)) s1))"

text \<open>The statistics update of one loop iteration, with its two logging calls.\<close>

definition update_stats :: "ActionResult \<Rightarrow> stats \<Rightarrow> stats" where
  "update_stats result st =
     (let st1 = st\<lparr>total_actions := total_actions st + 1\<rparr>;
          st2 = (if success result
                 then st1\<lparr>successful_actions := successful_actions st1 + 1\<rparr>
                 else st1\<lparr>failed_actions := failed_actions st1 + 1\<rparr>);
          st3 = (if truthy_str (screenshot_base64 result)
                 then st2\<lparr>screenshots_captured := screenshots_captured st2 + 1\<rparr>
                 else st2)
      in st3\<lparr>total_execution_time_ms := total_execution_time_ms st3 + execution_time_ms result\<rparr>)"

definition log_outcome :: "ActionResult \<Rightarrow> 'w env \<Rightarrow> 'w env" where
  "log_outcome result s =
     (if success result then logger (ActionSuccess (execution_time_ms result)) s
      else logger (ActionFailure (error result)) s)"

text \<open>The record pushed to the dataset after each action.\<close>

definition action_result_item :: "ActionResult \<Rightarrow> pyobj" where
  "action_result_item result = PDict [(''type'', PStr ''action_result''), (''data'', to_dict result)]"

text \<open>
  The \<open>for\<close> loop of \<open>run\<close> over the actions, numbered from \<open>i\<close>, of \<open>n\<close> in all.
  \<open>_parse_action\<close> is outside \<open>execute_action\<close>: what it raises leaves the loop. The
  controller is the one \<open>launch\<close> returned normally on.
\<close>

fun run_actions ::
  "'w engine \<Rightarrow> nat \<Rightarrow> nat \<Rightarrow> action_data list \<Rightarrow> BrowserController \<Rightarrow> PlaywrightMCPActor \<Rightarrow> 'w env
     \<Rightarrow> (exn option \<times> BrowserController \<times> PlaywrightMCPActor) \<times> 'w env" where
  "run_actions E i n [] ctl self s = ((None, ctl, self), s)"
| "run_actions E i n (d # rest) ctl self s =
     (let s1 = logger (Executing i n (d_type d)) s in
      case parse_action d of
        Inl e \<Rightarrow> ((Some e, ctl, self), s1)
      | Inr a \<Rightarrow>
          (let (result, ctl1, s2) = execute_action E ctl a s1;
               self1 = self\<lparr>results := results self @ [result],
                            stats := update_stats result (stats self)\<rparr>;
               s3 = log_outcome result s2;
               s4 = push_data (action_result_item result) s3
           in run_actions E (i + 1) n rest ctl1 self1 s4))"

text \<open>The default input substituted for a missing or empty one.\<close>

definition default_input :: actor_input where
  "default_input =
     \<lparr>in_template = None, in_template_params = None,
      in_actions = Some (ActionList
        [(act ''navigate'')\<lparr>d_value := Some (VStr ''https://example.com''),
                             d_description := Some ''Navigate to example.com for testing''\<rparr>,
         (act ''get_title'')\<lparr>d_description := Some ''Get page title to verify page load''\<rparr>,
         (act ''extract_text'')\<lparr>d_selector := Some ''h1'',
                                 d_description := Some ''Extract heading text''\<rparr>,
         (act ''screenshot'')\<lparr>d_description := Some ''Capture screenshot to verify rendering''\<rparr>]),
      in_browser_type = Some ''chromium'', in_headless = Some True, in_proxy = None,
      in_stealth_mode = Some False, in_export_format = None\<rparr>"

definition truthy_actions :: "json_actions option \<Rightarrow> bool" where
  "truthy_actions x =
     (case x of None \<Rightarrow> False | Some (NotAList b) \<Rightarrow> b | Some (ActionList l) \<Rightarrow> l \<noteq> [])"

definition empty_input :: actor_input where
  "empty_input =
     \<lparr>in_template = None, in_template_params = None, in_actions = None,
      in_browser_type = None, in_headless = None, in_proxy = None, in_stealth_mode = None,
      in_export_format = None\<rparr>"

text \<open>\<open>if actor_input is None or not actor_input or \<dots> not actor_input.get("actions")\<close>:
  the input that the rest of \<open>run\<close> works on, and whether it is the default.\<close>

definition effective_input :: "actor_input option \<Rightarrow> bool \<times> actor_input" where
  "effective_input actor_input =
     (case actor_input of
        None \<Rightarrow> (True, default_input)
      | Some inp \<Rightarrow>
          if inp = empty_input \<or> \<not> truthy_actions (in_actions inp) then (True, default_input)
          else (False, inp))"

definition list_of :: "json_actions \<Rightarrow> action_data list" where
  "list_of x = (case x of ActionList l \<Rightarrow> l | NotAList b \<Rightarrow> [])"

text \<open>
  The first step of the \<open>try\<close> of \<open>run\<close>: the actions come from the template when
  one is named (an error of the template generator is re-raised as a \<open>ValueError\<close>
  with the prefix \<open>Template error:\<close>), and from the key \<open>actions\<close> otherwise.
\<close>

definition select_actions :: "actor_input \<Rightarrow> exn + json_actions" where
  "select_actions inp =
     (if truthy_str (in_template inp) then
        (case get_template (get_default (in_template inp) [])
                (get_default (in_template_params inp) []) of
           Inl e \<Rightarrow> Inl (ValueError (''Template error: '' @ str_exn e))
         | Inr l \<Rightarrow> Inr (ActionList l))
      else Inr (get_default (in_actions inp) (ActionList [])))"

text \<open>
  The body of the \<open>try\<close> of \<open>run\<close>. Its result is the exception that leaves the body,
  if any, and the actor as it is then. The controller is assigned to the actor before
  \<open>launch\<close> is called, so it is there on every path from \<open>launch\<close> on.
\<close>

definition run_try ::
  "'w engine \<Rightarrow> actor_input \<Rightarrow> PlaywrightMCPActor \<Rightarrow> 'w env \<Rightarrow> (exn option \<times> PlaywrightMCPActor) \<times> 'w env" where
  "run_try E inp self s =
     (let s1 = (if truthy_str (in_template inp)
                then logger (UsingTemplate (get_default (in_template inp) [])) s else s)
      in case select_actions inp of
        Inl e \<Rightarrow> ((Some e, self), s1)
      | Inr actions_data \<Rightarrow>
          (let s2 = (if truthy_str (in_template inp)
                     then logger (GeneratedFromTemplate (length (list_of actions_data))) s1
                     else s1)
           in case validate_input [(''actions'', actions_data)] of
             Some e \<Rightarrow> ((Some e, self), s2)
           | None \<Rightarrow>
               (case BrowserType_of (Some (get_default (in_browser_type inp) ''chromium'')) of
                  Inl e \<Rightarrow> ((Some e, self), s2)
                | Inr bt \<Rightarrow>
                    (let headless = get_default (in_headless inp) True;
                         stealth_mode = get_default (in_stealth_mode inp) False
                     in case launch E (BrowserController_init bt) headless (in_proxy inp)
                               stealth_mode s2 of
                          ((Some e, ctl), s3) \<Rightarrow> ((Some e, self\<lparr>controller := Some ctl\<rparr>), s3)
                        | ((None, ctl), s3) \<Rightarrow>
                            (let acts = list_of actions_data;
                                 s4 = logger (ExecutingActions (length acts))
                                        (logger (BrowserInitialized (BrowserType_value bt)) s3)
                             in case run_actions E 1 (length acts) acts ctl self s4 of
                                  ((Some e, ctl1, self1), s5) \<Rightarrow>
                                    ((Some e, self1\<lparr>controller := Some ctl1\<rparr>), s5)
                                | ((None, ctl1, self1), s5) \<Rightarrow>
                                    (let self2 = self1\<lparr>controller := Some ctl1\<rparr>;
                                         out = prepare_output E self2 (world s5);
                                         s6 = logger (Stats (stats self2)) (logger Completed s5);
                                         export_format = get_default (in_export_format inp) ''json'';
                                         s7 = (if export_format \<noteq> ''json''
                                               then export_data E out export_format s6 else s6)
                                     in ((None, self2), push_data out s7)))))))"

text \<open>
  \<open>run\<close>: the default substitution, the log line that shows the input the run works
  on, the \<open>try\<close> body, the \<open>except\<close> clause (log, push the failure record, re-raise)
  and the \<open>finally\<close> clause (close the controller when there is one). The result holds
  the exception that \<open>run\<close> raises, if any.
\<close>

definition run ::
  "'w engine \<Rightarrow> actor_input option \<Rightarrow> PlaywrightMCPActor \<Rightarrow> 'w env \<Rightarrow> (exn option \<times> PlaywrightMCPActor) \<times> 'w env" where
  "run E actor_input self s =
     (let (dflt, inp) = effective_input actor_input;
          s0 = logger (ReceivedInput inp)
                 (if dflt then logger LoadedDefaults (logger NoInputProvided s) else s);
          ((exc, self1), s1) = run_try E inp self s0;
          s2 = (case exc of
                  None \<Rightarrow> s1
                | Some e \<Rightarrow>
                    push_data (PDict [(''success'', PBool False), (''error'', PStr (str_exn e)),
                                      (''stats'', stats_dict (stats self1))])
                      (logger (ActorFailed (str_exn e)) s1));
          s3 = (case controller self1 of None \<Rightarrow> s2 | Some ctl \<Rightarrow> close E ctl s2)
      in ((exc, self1), s3))"

section \<open>A recording engine\<close>

text \<open>
  A concrete engine to run the program on. Its world is the list of the engine calls
  made so far. A locator becomes visible when \<open>vis\<close> says so; the first \<open>k\<close> of the four
  acquisitions of \<open>launch\<close> succeed; a screenshot is three bytes; everything else
  succeeds.
\<close>

definition recording_engine :: "(Locator \<Rightarrow> bool) \<Rightarrow> nat \<Rightarrow> string list engine" where
  "recording_engine vis k =
     \<lparr>time_ms = (\<lambda>w. int (length w)),
      now_iso = (\<lambda>w. ''2025-01-01T00:00:00''),
      sleep_ms = (\<lambda>ms w. w @ [''sleep'']),
      page_goto = (\<lambda>u w. (Inr (), w @ [''goto''])),
      page_url = (\<lambda>w. ''https://example.com/''),
      page_title = (\<lambda>w. (Inr ''Example Domain'', w @ [''title''])),
      page_content = (\<lambda>w. (Inr ''<html></html>'', w @ [''content''])),
      page_go_back = (\<lambda>w. (Inr (), w @ [''go_back''])),
      page_go_forward = (\<lambda>w. (Inr (), w @ [''go_forward''])),
      page_reload = (\<lambda>w. (Inr (), w @ [''reload''])),
      page_screenshot = (\<lambda>w. (Inr [137, 80, 78], w @ [''screenshot''])),
      page_evaluate = (\<lambda>js w. (Inr PNone, w @ [''evaluate''])),
      loc_wait_for = (\<lambda>l t w. (if vis l then Inr () else Inl (TimeoutError ''Timeout exceeded''),
                                 w @ [''wait_for''])),
      loc_click = (\<lambda>l t w. (Inr (), w @ [''click''])),
      loc_type = (\<lambda>l x w. (Inr (), w @ [''type''])),
      loc_fill = (\<lambda>l x w. (Inr (), w @ [''fill''])),
      loc_select_option = (\<lambda>l x w. (Inr (), w @ [''select_option''])),
      loc_check = (\<lambda>l w. (Inr (), w @ [''check''])),
      loc_uncheck = (\<lambda>l w. (Inr (), w @ [''uncheck''])),
      loc_hover = (\<lambda>l w. (Inr (), w @ [''hover''])),
      loc_focus = (\<lambda>l w. (Inr (), w @ [''focus''])),
      loc_press = (\<lambda>l x w. (Inr (), w @ [''press''])),
      loc_text_content = (\<lambda>l w. (Inr (Some ''Example Domain''), w @ [''text_content''])),
      loc_get_attribute = (\<lambda>l x w. (Inr None, w @ [''get_attribute''])),
      loc_inner_html = (\<lambda>l w. (Inr ''<b>x</b>'', w @ [''inner_html''])),
      get_env = (\<lambda>w. Inr (\<lambda>x. None)),
      playwright_start = (\<lambda>w. (if 1 \<le> k then Inr 1 else Inl (Error ''driver not found''),
                              w @ [''playwright.start''])),
      browser_launch = (\<lambda>h bt hl px w. (if 2 \<le> k then Inr 2 else Inl (Error ''browser missing''),
                                        w @ [''browser.launch''])),
      new_context = (\<lambda>h px w. (if 3 \<le> k then Inr 3 else Inl (Error ''context failed''),
                               w @ [''new_context''])),
      add_init_script = (\<lambda>h w. (Inr (), w @ [''add_init_script''])),
      new_page = (\<lambda>h w. (if 4 \<le> k then Inr 4 else Inl (Error ''page failed''),
                         w @ [''new_page''])),
      context_close = (\<lambda>h w. (Inr (), w @ [''context.close''])),
      browser_close = (\<lambda>h w. (Inr (), w @ [''browser.close''])),
      playwright_stop = (\<lambda>h w. (Inr (), w @ [''playwright.stop''])),
      set_value = (\<lambda>key x w. (Inr (), w @ [''set_value'']))\<rparr>"

definition env0 :: "string list env" where
  "env0 = \<lparr>world = [], trace = []\<rparr>"

text \<open>The same engine with every element visible and a page on which evaluating a script
  fails with an error that has no message.\<close>

definition silent_engine :: "string list engine" where
  "silent_engine =
     (recording_engine (\<lambda>l. True) 4)
       \<lparr>page_evaluate := (\<lambda>js w. (Inl (Error []), w @ [''evaluate'']))\<rparr>"

section \<open>Observations used to state the properties\<close>



text \<open>
  What the engine alone answers when the strategies of a list are tried in order from
  the world \<open>w\<close>, each wait starting in the world the one before it left: \<open>None\<close> when
  one of them becomes visible, and otherwise the messages of the failures (the empty
  one for a strategy name that has no locator, for which the engine is not asked) with
  the world after the last wait.
\<close>

fun fail_in_turn ::
  "'w engine \<Rightarrow> int \<Rightarrow> (string \<times> string) list \<Rightarrow> 'w \<Rightarrow> (string list \<times> 'w) option" where
  "fail_in_turn E tmo [] w = Some ([], w)"
| "fail_in_turn E tmo (nv # rest) w =
     (case strategy_locator (fst nv) (snd nv) of
        None \<Rightarrow> map_option (\<lambda>(ms, w'). ([] # ms, w')) (fail_in_turn E tmo rest w)
      | Some l \<Rightarrow>
          (case loc_wait_for E l tmo w of
             (Inr u, w1) \<Rightarrow> None
           | (Inl e, w1) \<Rightarrow>
               map_option (\<lambda>(ms, w'). (str_pw e # ms, w')) (fail_in_turn E tmo rest w1)))"

definition requires_selector :: "ActionType \<Rightarrow> bool" where
  "requires_selector t =
     (t \<in> set [CLICK, TYPE', FILL, SELECT, CHECK, UNCHECK, EXTRACT_ATTRIBUTES, HOVER, FOCUS,
               PRESS_KEY, WAIT_FOR_ELEMENT])"

definition has_required_fields :: "Action \<Rightarrow> bool" where
  "has_required_fields a =
     (truthy_str (selector a) \<and>
      (type a \<in> set [TYPE', FILL, SELECT] \<longrightarrow> value a \<noteq> None) \<and>
      (type a = PRESS_KEY \<longrightarrow> truthy_val (value a)))"

definition not_found_message :: "ActionType \<Rightarrow> string" where
  "not_found_message t =
     (if t = WAIT_FOR_ELEMENT then ''Element not found or timeout: '' else ''Element not found: '')"

text \<open>The events that executing one action may add to the trace: the log lines of
  \<open>find_element\<close> and of the \<open>except\<close> clause of \<open>execute_action\<close>.\<close>

fun action_log :: "log \<Rightarrow> bool" where
  "action_log (Trying n v) = True"
| "action_log (FoundUsing n) = True"
| "action_log (StrategyFailed n m) = True"
| "action_log (ActionFailed t m) = True"
| "action_log _ = False"

fun action_event :: "event \<Rightarrow> bool" where
  "action_event (Logged m) = action_log m"
| "action_event (Pushed d) = False"

definition extends_by :: "(event \<Rightarrow> bool) \<Rightarrow> 'w env \<Rightarrow> 'w env \<Rightarrow> bool" where
  "extends_by P s s' = (\<exists>new. trace s' = trace s @ new \<and> list_all P new)"

text \<open>The errors an engine raises from a page or locator operation.\<close>

inductive engine_raises :: "'w engine \<Rightarrow> pw_error \<Rightarrow> bool" for E :: "'w engine" where
  "page_goto E u w = (Inl e, w') \<Longrightarrow> engine_raises E e"
| "page_title E w = (Inl e, w') \<Longrightarrow> engine_raises E e"
| "page_content E w = (Inl e, w') \<Longrightarrow> engine_raises E e"
| "page_go_back E w = (Inl e, w') \<Longrightarrow> engine_raises E e"
| "page_go_forward E w = (Inl e, w') \<Longrightarrow> engine_raises E e"
| "page_reload E w = (Inl e, w') \<Longrightarrow> engine_raises E e"
| "page_screenshot E w = (Inl e, w') \<Longrightarrow> engine_raises E e"
| "page_evaluate E js w = (Inl e, w') \<Longrightarrow> engine_raises E e"
| "loc_wait_for E l t w = (Inl e, w') \<Longrightarrow> engine_raises E e"
| "loc_click E l t w = (Inl e, w') \<Longrightarrow> engine_raises E e"
| "loc_type E l x w = (Inl e, w') \<Longrightarrow> engine_raises E e"
| "loc_fill E l x w = (Inl e, w') \<Longrightarrow> engine_raises E e"
| "loc_select_option E l x w = (Inl e, w') \<Longrightarrow> engine_raises E e"
| "loc_check E l w = (Inl e, w') \<Longrightarrow> engine_raises E e"
| "loc_uncheck E l w = (Inl e, w') \<Longrightarrow> engine_raises E e"
| "loc_hover E l w = (Inl e, w') \<Longrightarrow> engine_raises E e"
| "loc_focus E l w = (Inl e, w') \<Longrightarrow> engine_raises E e"
| "loc_press E l x w = (Inl e, w') \<Longrightarrow> engine_raises E e"
| "loc_text_content E l w = (Inl e, w') \<Longrightarrow> engine_raises E e"
| "loc_get_attribute E l x w = (Inl e, w') \<Longrightarrow> engine_raises E e"
| "loc_inner_html E l w = (Inl e, w') \<Longrightarrow> engine_raises E e"

text \<open>An exception that an action may end with: a \<open>ValueError\<close> or \<open>OverflowError\<close> of
  the program, whose message is not empty, or an error the engine raised.\<close>

fun known_error :: "'w engine \<Rightarrow> exn \<Rightarrow> bool" where
  "known_error E (ValueError m) = (m \<noteq> [])"
| "known_error E (OverflowError m) = (m \<noteq> [])"
| "known_error E (Playwright e) = engine_raises E e"

text \<open>A triple for a statement sequence \<open>m\<close>: it adds only action events to the trace,
  raises only known errors, and what it returns satisfies \<open>R\<close>.\<close>

definition contained :: "'w engine \<Rightarrow> ('a \<Rightarrow> bool) \<Rightarrow> ('w env \<Rightarrow> (exn + 'a) \<times> 'w env) \<Rightarrow> bool" where
  "contained E R m =
     (\<forall>s r s'. m s = (r, s') \<longrightarrow>
        extends_by action_event s s' \<and> (case r of Inl e \<Rightarrow> known_error E e | Inr x \<Rightarrow> R x))"

text \<open>What a successful action implementation has done to the result it was given.\<close>

definition action_post :: "'w engine \<Rightarrow> ActionType \<Rightarrow> ActionResult \<Rightarrow> ActionResult \<Rightarrow> bool" where
  "action_post E t result res =
     (success res \<and> error res = error result \<and> action res = action result \<and>
      (if t = SCREENSHOT
       then \<exists>bs w w'. page_screenshot E w = (Inr bs, w') \<and>
              screenshot_base64 res = Some (b64encode bs)
       else screenshot_base64 res = screenshot_base64 result))"

text \<open>The milestones of the loop of \<open>run\<close>: the log line that opens the iteration of
  an action and every record pushed to the dataset. \<open>milestones_of\<close> is the sequence
  they form when the actions \<open>ds\<close>, numbered from \<open>i\<close>, produce the results \<open>rs\<close>.\<close>

fun milestone :: "event \<Rightarrow> bool" where
  "milestone (Logged (Executing i n t)) = True"
| "milestone (Pushed d) = True"
| "milestone _ = False"

fun milestones_of :: "nat \<Rightarrow> nat \<Rightarrow> action_data list \<Rightarrow> ActionResult list \<Rightarrow> event list" where
  "milestones_of i n (d # ds) (r # rs) =
     Logged (Executing i n (d_type d)) # Pushed (action_result_item r) #
       milestones_of (i + 1) n ds rs"
| "milestones_of i n ds rs = []"

text \<open>A result that \<open>execute_action\<close> produced, and an input action that
  \<open>_parse_action\<close> accepts.\<close>

definition executed :: "'w engine \<Rightarrow> ActionResult \<Rightarrow> bool" where
  "executed E r = (\<exists>ctl a s ctl' s'. execute_action E ctl a s = (r, ctl', s'))"

definition is_action :: "action_data \<Rightarrow> bool" where
  "is_action d = (case parse_action d of Inl e \<Rightarrow> False | Inr a \<Rightarrow> True)"

definition stats_consistent :: "stats \<Rightarrow> bool" where
  "stats_consistent st = (total_actions st = successful_actions st + failed_actions st)"

definition stats_after :: "stats \<Rightarrow> ActionResult list \<Rightarrow> stats" where
  "stats_after st rs = foldl (\<lambda>st r. update_stats r st) st rs"

text \<open>The record that the \<open>except\<close> clause of \<open>run\<close> pushes before it re-raises.\<close>

definition failure_item :: "exn \<Rightarrow> stats \<Rightarrow> pyobj" where
  "failure_item e st =
     PDict [(''success'', PBool False), (''error'', PStr (str_exn e)), (''stats'', stats_dict st)]"

text \<open>An input with two actions for the recording engine: a click on an element that
  is never there, and a title query.\<close>

definition demo_input :: actor_input where
  "demo_input =
     empty_input\<lparr>in_actions := Some (ActionList
        [(act ''click'')\<lparr>d_selector := Some ''#missing''\<rparr>, act ''get_title''])\<rparr>"

text \<open>An input whose second action has a type that is no member of \<open>ActionType\<close>, and
  one whose \<open>actions\<close> is a non-empty string.\<close>

definition bogus_input :: actor_input where
  "bogus_input =
     empty_input\<lparr>in_actions := Some (ActionList
        [act ''get_title'', act ''bogus'', act ''get_url''])\<rparr>"

definition string_actions_input :: actor_input where
  "string_actions_input = empty_input\<lparr>in_actions := Some (NotAList True)\<rparr>"

section \<open>Properties of the locator strategy\<close>

lemma logger_simps [simp]:
  "trace (logger m s) = trace s @ [Logged m]" "world (logger m s) = world s"
  by (simp_all add: logger_def)

lemma push_data_simps [simp]:
  "trace (push_data d s) = trace s @ [Pushed d]" "world (push_data d s) = world s"
  by (simp_all add: push_data_def)


text \<open>Whether every strategy of a list fails is a fact of the engine, so the result of
  \<open>try_strategies\<close> is \<open>None\<close> exactly then.\<close>

lemma fail_in_turn_length:
  "fail_in_turn E tmo strs w = Some (msgs, w') \<Longrightarrow> length msgs = length strs"
  by (induction strs arbitrary: w msgs)
     (auto split: option.splits prod.splits sum.splits)




section \<open>Properties of the action executor\<close>

lemma extends_by_refl [simp]: "extends_by P s s"
  by (simp add: extends_by_def)

lemma extends_by_trans: "extends_by P s s1 \<Longrightarrow> extends_by P s1 s2 \<Longrightarrow> extends_by P s s2"
  by (auto simp: extends_by_def)

lemma extends_by_logger: "P (Logged m) \<Longrightarrow> extends_by P s (logger m s)"
  by (simp add: extends_by_def)

lemma extends_by_world [simp]: "extends_by P s (s'\<lparr>world := w\<rparr>) = extends_by P s s'"
  by (simp add: extends_by_def)

lemma extends_by_world_left [simp]: "extends_by P (s\<lparr>world := w\<rparr>) s' = extends_by P s s'"
  by (simp add: extends_by_def)

lemma extends_by_logger_step:
  "P (Logged m) \<Longrightarrow> extends_by P (logger m s) s' \<Longrightarrow> extends_by P s s'"
  by (auto simp: extends_by_def)

lemma try_strategies_quiet:
  "try_strategies E tmo strs s = (r, s') \<Longrightarrow> extends_by action_event s s'"
proof (induction strs arbitrary: s)
  case Nil
  then show ?case by simp
next
  case (Cons nv rest)
  obtain n v where nv: "nv = (n, v)" by (cases nv)
  show ?case
  proof (cases "strategy_locator n v")
    case None
    with Cons.prems nv have "try_strategies E tmo rest (logger (Trying n v) s) = (r, s')" by simp
    from Cons.IH [OF this] show ?thesis by (rule extends_by_logger_step [rotated]) simp
  next
    case (Some locator)
    obtain res w where call: "loc_wait_for E locator tmo (world s) = (res, w)"
      by (cases "loc_wait_for E locator tmo (world s)")
    show ?thesis
    proof (cases res)
      case (Inr u)
      with Cons.prems nv Some call
      have "s' = logger (FoundUsing n) ((logger (Trying n v) s)\<lparr>world := w\<rparr>)" by simp
      then show ?thesis by (simp add: extends_by_def)
    next
      case (Inl e)
      let ?s2 = "logger (StrategyFailed n (str_pw e)) ((logger (Trying n v) s)\<lparr>world := w\<rparr>)"
      from Cons.prems nv Some call Inl
      have "try_strategies E tmo rest ?s2 = (r, s')" by (cases e) simp_all
      from Cons.IH [OF this] show ?thesis by (auto simp: extends_by_def)
    qed
  qed
qed

lemma find_element_quiet:
  "find_element E sel st tmo s = (r, s') \<Longrightarrow> extends_by action_event s s'"
  by (simp add: find_element_def try_strategies_quiet)

lemma contained_return: "R x \<Longrightarrow> contained E R (return x)"
  by (simp add: contained_def return_def)

lemma contained_return_state: "(\<And>s. R (g s)) \<Longrightarrow> contained E R (\<lambda>s. return (g s) s)"
  by (simp add: contained_def return_def)

lemma contained_return_world: "R x \<Longrightarrow> contained E R (\<lambda>s. return x (s\<lparr>world := f (world s)\<rparr>))"
  by (auto simp: contained_def return_def)

lemma contained_raise: "known_error E e \<Longrightarrow> contained E R (raise e)"
  by (simp add: contained_def raise_def)

lemma contained_bind:
  assumes "contained E R1 m" and "\<And>x. R1 x \<Longrightarrow> contained E R (f x)"
  shows "contained E R (bind_exn m f)"
  unfolding contained_def
proof (intro allI impI)
  fix s r s'
  assume run: "bind_exn m f s = (r, s')"
  obtain r1 s1 where m: "m s = (r1, s1)" by (cases "m s")
  with assms(1) have q1: "extends_by action_event s s1"
    and p1: "case r1 of Inl e \<Rightarrow> known_error E e | Inr x \<Rightarrow> R1 x"
    by (auto simp: contained_def)
  show "extends_by action_event s s' \<and> (case r of Inl e \<Rightarrow> known_error E e | Inr x \<Rightarrow> R x)"
  proof (cases r1)
    case (Inl e)
    with run m have "r = Inl e" "s' = s1" by (simp_all add: bind_exn_def)
    with q1 p1 Inl show ?thesis by simp
  next
    case (Inr x)
    with run m have f: "f x s1 = (r, s')" by (simp add: bind_exn_def)
    from p1 Inr have "R1 x" by simp
    from assms(2) [OF this] f
    have "extends_by action_event s1 s'" "case r of Inl e \<Rightarrow> known_error E e | Inr x \<Rightarrow> R x"
      by (auto simp: contained_def)
    with q1 show ?thesis by (blast intro: extends_by_trans)
  qed
qed

lemma contained_call:
  assumes "\<And>w e w'. f w = (Inl e, w') \<Longrightarrow> engine_raises E e"
  shows "contained E (\<lambda>x. True) (call f)"
  using assms by (auto simp: contained_def call_def split: prod.splits sum.splits)

lemma contained_calls:
  "contained E (\<lambda>x. True) (call (page_goto E u))"
  "contained E (\<lambda>x. True) (call (page_title E))"
  "contained E (\<lambda>x. True) (call (page_content E))"
  "contained E (\<lambda>x. True) (call (page_go_back E))"
  "contained E (\<lambda>x. True) (call (page_go_forward E))"
  "contained E (\<lambda>x. True) (call (page_reload E))"
  "contained E (\<lambda>x. True) (call (page_screenshot E))"
  "contained E (\<lambda>x. True) (call (page_evaluate E js))"
  "contained E (\<lambda>x. True) (call (loc_wait_for E l t))"
  "contained E (\<lambda>x. True) (call (loc_click E l t))"
  "contained E (\<lambda>x. True) (call (loc_type E l txt))"
  "contained E (\<lambda>x. True) (call (loc_fill E l txt))"
  "contained E (\<lambda>x. True) (call (loc_select_option E l txt))"
  "contained E (\<lambda>x. True) (call (loc_check E l))"
  "contained E (\<lambda>x. True) (call (loc_uncheck E l))"
  "contained E (\<lambda>x. True) (call (loc_hover E l))"
  "contained E (\<lambda>x. True) (call (loc_focus E l))"
  "contained E (\<lambda>x. True) (call (loc_press E l txt))"
  "contained E (\<lambda>x. True) (call (loc_text_content E l))"
  "contained E (\<lambda>x. True) (call (loc_get_attribute E l txt))"
  "contained E (\<lambda>x. True) (call (loc_inner_html E l))"
  by (rule contained_call, erule engine_raises.intros)+

lemma contained_require_selector:
  "msg \<noteq> [] \<or> truthy_str (selector a) \<Longrightarrow> contained E (\<lambda>x. True) (require_selector a msg)"
  by (auto simp: require_selector_def truthy_str_def intro: contained_return contained_raise
      split: option.splits)

lemma contained_require_value:
  "msg \<noteq> [] \<Longrightarrow> contained E (\<lambda>x. True) (require_value a msg)"
  by (auto simp: require_value_def intro: contained_return contained_raise split: option.splits)

lemma contained_require_truthy_value:
  "msg \<noteq> [] \<Longrightarrow> contained E (\<lambda>x. True) (require_truthy_value a msg)"
  by (auto simp: require_truthy_value_def intro: contained_return contained_raise
      split: option.splits)

lemma int_of_str_error: "int_of_str s = Inl e \<Longrightarrow> known_error E e"
  by (auto simp: int_of_str_def Let_def split: list.splits option.splits if_splits)

lemma contained_py_int_exn: "contained E (\<lambda>x. True) (py_int_exn v)"
  by (cases v)
     (auto simp: py_int_exn_def intro: contained_return contained_raise int_of_str_error
      split: sum.splits)

lemma contained_div_1000: "contained E (\<lambda>x. True) (div_1000 n)"
  by (simp add: div_1000_def contained_return contained_raise)

lemma contained_locate: "msg \<noteq> [] \<Longrightarrow> contained E (\<lambda>x. True) (locate E a sel msg)"
  by (auto simp: contained_def locate_def raise_def return_def dest: find_element_quiet
      split: prod.splits option.splits)

lemma contained_bind_any:
  "contained E (\<lambda>x. True) m \<Longrightarrow> (\<And>x. contained E R (f x)) \<Longrightarrow> contained E R (bind_exn m f)"
  by (rule contained_bind)

lemmas contained_steps =
  contained_bind_any contained_calls contained_require_selector contained_require_value
  contained_require_truthy_value contained_py_int_exn contained_div_1000 contained_locate

lemma contained_if:
  "(c \<Longrightarrow> contained E R m1) \<Longrightarrow> (\<not> c \<Longrightarrow> contained E R m2) \<Longrightarrow> contained E R (if c then m1 else m2)"
  by simp

lemmas contained_intros =
  contained_steps contained_return contained_return_state contained_return_world

lemma navigate_contained: "contained E (action_post E NAVIGATE result) (navigate_impl E a result)"
  unfolding navigate_impl_def by (intro contained_intros) (simp_all add: action_post_def)

lemma click_contained: "contained E (action_post E CLICK result) (click_impl E a result)"
  unfolding click_impl_def by (intro contained_intros) (simp_all add: action_post_def)

lemma type_contained: "contained E (action_post E TYPE' result) (type_impl E a result)"
  unfolding type_impl_def by (intro contained_intros) (simp_all add: action_post_def)

lemma fill_contained: "contained E (action_post E FILL result) (fill_impl E a result)"
  unfolding fill_impl_def by (intro contained_intros) (simp_all add: action_post_def)

lemma select_contained: "contained E (action_post E SELECT result) (select_impl E a result)"
  unfolding select_impl_def by (intro contained_intros) (simp_all add: action_post_def)

lemma check_contained: "contained E (action_post E CHECK result) (check_impl E a result)"
  unfolding check_impl_def by (intro contained_intros) (simp_all add: action_post_def)

lemma uncheck_contained: "contained E (action_post E UNCHECK result) (uncheck_impl E a result)"
  unfolding uncheck_impl_def by (intro contained_intros) (simp_all add: action_post_def)

lemma screenshot_contained:
  "contained E (action_post E SCREENSHOT result) (screenshot_impl E a result)"
  unfolding contained_def
proof (intro allI impI)
  fix s r s'
  assume run: "screenshot_impl E a result s = (r, s')"
  obtain x w where shot: "page_screenshot E (world s) = (x, w)"
    by (cases "page_screenshot E (world s)")
  show "extends_by action_event s s' \<and>
        (case r of Inl e \<Rightarrow> known_error E e | Inr res \<Rightarrow> action_post E SCREENSHOT result res)"
  proof (cases x)
    case (Inl e)
    with run shot show ?thesis
      by (auto simp: screenshot_impl_def call_def raise_def)
  next
    case (Inr bs)
    with run shot have "s' = s\<lparr>world := w\<rparr>"
      and "r = Inr (result\<lparr>screenshot_base64 := Some (b64encode bs), success := True,
                 output := PStr (''Screenshot captured ('' @ show_nat (length bs) @ '' bytes)'')\<rparr>)"
      by (simp_all add: screenshot_impl_def call_def return_def)
    with shot Inr show ?thesis
      by (auto simp: action_post_def)
  qed
qed

lemma extract_text_contained:
  "contained E (action_post E EXTRACT_TEXT result) (extract_text_impl E a result)"
  unfolding extract_text_impl_def
  by (intro contained_if contained_intros) (simp_all add: action_post_def)

lemma extract_attributes_contained:
  "contained E (action_post E EXTRACT_ATTRIBUTES result) (extract_attributes_impl E a result)"
  unfolding extract_attributes_impl_def by (intro contained_intros) (simp_all add: action_post_def)

lemma wait_contained: "contained E (action_post E WAIT result) (wait_impl E a result)"
  unfolding wait_impl_def by (intro contained_intros) (simp_all add: action_post_def)

lemma scroll_contained: "contained E (action_post E SCROLL result) (scroll_impl E a result)"
  unfolding scroll_impl_def
  by (cases "value a") (auto intro!: contained_intros simp: action_post_def)

lemma hover_contained: "contained E (action_post E HOVER result) (hover_impl E a result)"
  unfolding hover_impl_def by (intro contained_intros) (simp_all add: action_post_def)

lemma focus_contained: "contained E (action_post E FOCUS result) (focus_impl E a result)"
  unfolding focus_impl_def by (intro contained_intros) (simp_all add: action_post_def)

lemma press_key_contained: "contained E (action_post E PRESS_KEY result) (press_key_impl E a result)"
  unfolding press_key_impl_def by (intro contained_intros) (simp_all add: action_post_def)

lemma get_html_contained: "contained E (action_post E GET_HTML result) (get_html_impl E a result)"
  unfolding get_html_impl_def
  by (intro contained_if contained_intros) (simp_all add: action_post_def)

lemma evaluate_contained: "contained E (action_post E EVALUATE result) (evaluate_impl E a result)"
  unfolding evaluate_impl_def by (intro contained_intros) (simp_all add: action_post_def)

lemma wait_for_element_contained:
  "contained E (action_post E WAIT_FOR_ELEMENT result) (wait_for_element_impl E a result)"
  unfolding wait_for_element_impl_def by (intro contained_intros) (simp_all add: action_post_def)

lemmas impl_contained =
  navigate_contained click_contained type_contained fill_contained select_contained
  check_contained uncheck_contained screenshot_contained extract_text_contained
  extract_attributes_contained wait_contained scroll_contained hover_contained
  focus_contained press_key_contained get_html_contained evaluate_contained
  wait_for_element_contained

lemma dispatch_contained: "contained E (action_post E t result) (dispatch E t a result)"
proof (cases t)
  case GET_TITLE
  then show ?thesis by (simp, intro contained_intros) (simp_all add: action_post_def)
next
  case GET_URL
  then show ?thesis by (simp, intro contained_intros) (simp_all add: action_post_def)
next
  case GO_BACK
  then show ?thesis by (simp, intro contained_intros) (simp_all add: action_post_def)
next
  case GO_FORWARD
  then show ?thesis by (simp, intro contained_intros) (simp_all add: action_post_def)
next
  case RELOAD
  then show ?thesis by (simp, intro contained_intros) (simp_all add: action_post_def)
qed (simp_all add: impl_contained)

lemma b64encode_Nil_iff [simp]: "b64encode bs = [] \<longleftrightarrow> bs = []"
  by (cases bs rule: b64encode.cases) (simp_all add: Let_def)

lemma execute_action_result:
  assumes "execute_action E ctl a s = (r, ctl', s')"
  shows "extends_by action_event s s' \<and> action r = a \<and>
         (success r \<longrightarrow> error r = None \<and>
            (if type a = SCREENSHOT
             then \<exists>bs w w'. page_screenshot E w = (Inr bs, w') \<and>
                    screenshot_base64 r = Some (b64encode bs)
             else screenshot_base64 r = None)) \<and>
         (\<not> success r \<longrightarrow> screenshot_base64 r = None \<and>
            (\<exists>e. known_error E e \<and> error r = Some (str_exn e)))"
proof -
  let ?result = "\<lparr>success = False, action = a, output = PNone, error = None,
      execution_time_ms = 0, screenshot_base64 = None, timestamp = now_iso E (world s)\<rparr>"
  obtain x s1 where d: "dispatch E (type a) a ?result s = (x, s1)"
    by (cases "dispatch E (type a) a ?result s")
  from dispatch_contained [of E "type a" ?result a] d
  have q: "extends_by action_event s s1"
    and p: "case x of Inl e \<Rightarrow> known_error E e | Inr res \<Rightarrow> action_post E (type a) ?result res"
    by (auto simp: contained_def)
  show ?thesis
  proof (cases x)
    case (Inl e)
    with assms d have r: "r = ?result\<lparr>error := Some (str_exn e),
          execution_time_ms := time_ms E (world s1) - time_ms E (world s)\<rparr>"
      and s': "s' = logger (ActionFailed (ActionType_value (type a)) (str_exn e)) s1"
      by (auto simp: execute_action_def Let_def)
    from q s' have "extends_by action_event s s'"
      by (auto simp: extends_by_def)
    moreover from p Inl have "known_error E e" by simp
    ultimately show ?thesis using r by auto
  next
    case (Inr res)
    with assms d have r: "r = res\<lparr>execution_time_ms := time_ms E (world s1) - time_ms E (world s)\<rparr>"
      and s': "s' = s1"
      by (auto simp: execute_action_def Let_def)
    from p Inr have "action_post E (type a) ?result res" by simp
    with q r s' show ?thesis by (auto simp: action_post_def split: if_splits)
  qed
qed

lemma known_error_empty:
  "known_error E x \<Longrightarrow> str_exn x = [] \<Longrightarrow> \<exists>e. engine_raises E e \<and> str_pw e = []"
  by (cases x) auto

lemma get_to_dict_error:
  "get (to_dict r) ''error'' =
     (case error r of None \<Rightarrow> None | Some x \<Rightarrow> if x \<noteq> [] then Some (PStr x) else None)"
  by (simp add: to_dict_def split: option.splits)

lemma get_to_dict_success: "get (to_dict r) ''success'' = Some (PBool (success r))"
  by (simp add: to_dict_def)

lemmas executor_defs =
  execute_action_def navigate_impl_def click_impl_def type_impl_def fill_impl_def
  select_impl_def check_impl_def uncheck_impl_def screenshot_impl_def extract_text_impl_def
  extract_attributes_impl_def wait_impl_def scroll_impl_def hover_impl_def focus_impl_def
  press_key_impl_def get_html_impl_def evaluate_impl_def wait_for_element_impl_def
  bind_exn_def return_def raise_def call_def require_selector_def require_value_def
  require_truthy_value_def locate_def py_int_exn_def opt_obj_def find_element_def
  strategies_def strategy_locator_def truthy_str_def truthy_val_def quoted_def Let_def
  logger_def push_data_def env0_def BrowserController_init_def

text \<open>
  Claim C4, as stated, fails. The error string of a failed result is \<open>str(e)\<close> of the
  exception that ended the action, and \<open>to_dict\<close> shows the key \<open>error\<close> only when the
  string is truthy. On a page where the evaluation of a script fails with an error that
  has no message, an \<open>evaluate\<close> action fails with the empty string as its error, and
  its output record has \<open>success = False\<close> and no \<open>error\<close> key.
\<close>

theorem failure_without_message_counterexample:
  "execute_action silent_engine (BrowserController_init CHROMIUM)
      \<lparr>type = EVALUATE, selector = None, value = Some (VStr ''document.title''),
       selector_type = AUTO, timeout = 10000, description = None, metadata = None\<rparr> env0 =
     (\<lparr>success = False,
       action = \<lparr>type = EVALUATE, selector = None, value = Some (VStr ''document.title''),
                 selector_type = AUTO, timeout = 10000, description = None, metadata = None\<rparr>,
       output = PNone, error = Some [], execution_time_ms = 1, screenshot_base64 = None,
       timestamp = ''2025-01-01T00:00:00''\<rparr>,
      BrowserController_init CHROMIUM,
      \<lparr>world = [''evaluate''], trace = [Logged (ActionFailed ''evaluate'' [])]\<rparr>) \<and>
   to_dict (fst (execute_action silent_engine (BrowserController_init CHROMIUM)
      \<lparr>type = EVALUATE, selector = None, value = Some (VStr ''document.title''),
       selector_type = AUTO, timeout = 10000, description = None, metadata = None\<rparr> env0)) =
     PDict [(''type'', PStr ''evaluate''), (''success'', PBool False),
            (''execution_time_ms'', PInt 1), (''output'', PNone),
            (''timestamp'', PStr ''2025-01-01T00:00:00''),
            (''value'', PStr ''document.title'')] \<and>
   get (to_dict (fst (execute_action silent_engine (BrowserController_init CHROMIUM)
      \<lparr>type = EVALUATE, selector = None, value = Some (VStr ''document.title''),
       selector_type = AUTO, timeout = 10000, description = None, metadata = None\<rparr> env0)))
     ''error'' = None"
  by (simp add: executor_defs silent_engine_def recording_engine_def to_dict_def)

text \<open>
  Claim C4, amended. The result of executing any action has an error message exactly
  when it is not successful, and \<open>to_dict\<close> always shows \<open>success\<close>. The message of a
  failed result is that of the exception that ended the action. When it is not empty,
  which it is for every exception the program itself raises, \<open>to_dict\<close> shows it under
  the key \<open>error\<close>. It is empty only when the engine raised an error that has no
  message, and then \<open>to_dict\<close> leaves the key out. A successful result has no \<open>error\<close>
  key.
\<close>

theorem failed_result_carries_error:
  assumes "execute_action E ctl a s = (r, ctl', s')"
  shows "(error r \<noteq> None \<longleftrightarrow> \<not> success r) \<and>
         get (to_dict r) ''success'' = Some (PBool (success r)) \<and>
         (success r \<longrightarrow> get (to_dict r) ''error'' = None) \<and>
         (\<not> success r \<longrightarrow>
            (\<exists>m. error r = Some m \<and>
               (m \<noteq> [] \<longrightarrow> get (to_dict r) ''error'' = Some (PStr m)) \<and>
               (m = [] \<longrightarrow> get (to_dict r) ''error'' = None \<and>
                  (\<exists>e. engine_raises E e \<and> str_pw e = []))))"
proof -
  note res = execute_action_result [OF assms]
  show ?thesis
  proof (cases "success r")
    case True
    with res have "error r = None" by simp
    with True show ?thesis by (simp add: get_to_dict_error get_to_dict_success)
  next
    case False
    with res obtain e where e: "known_error E e" "error r = Some (str_exn e)" by blast
    have "str_exn e = [] \<longrightarrow> (\<exists>p. engine_raises E p \<and> str_pw p = [])"
      using known_error_empty [OF e(1)] by blast
    with False e(2) show ?thesis by (simp add: get_to_dict_error get_to_dict_success)
  qed
qed

theorem failed_result_carries_error_witness:
  "fst (execute_action (recording_engine (\<lambda>l. False) 4) (BrowserController_init CHROMIUM)
          \<lparr>type = CLICK, selector = Some ''h1'', value = None, selector_type = CSS,
           timeout = 10000, description = None, metadata = None\<rparr> env0) =
     \<lparr>success = False,
      action = \<lparr>type = CLICK, selector = Some ''h1'', value = None, selector_type = CSS,
                timeout = 10000, description = None, metadata = None\<rparr>,
      output = PNone, error = Some ''Element not found: h1'', execution_time_ms = 1,
      screenshot_base64 = None, timestamp = ''2025-01-01T00:00:00''\<rparr> \<and>
   get (to_dict (fst (execute_action (recording_engine (\<lambda>l. False) 4)
          (BrowserController_init CHROMIUM)
          \<lparr>type = CLICK, selector = Some ''h1'', value = None, selector_type = CSS,
           timeout = 10000, description = None, metadata = None\<rparr> env0))) ''error'' =
     Some (PStr ''Element not found: h1'') \<and>
   get (to_dict (fst (execute_action (recording_engine (\<lambda>l. False) 4)
          (BrowserController_init CHROMIUM)
          \<lparr>type = CLICK, selector = Some ''h1'', value = None, selector_type = CSS,
           timeout = 10000, description = None, metadata = None\<rparr> env0))) ''success'' =
     Some (PBool False)"
proof -
  let ?E = "recording_engine (\<lambda>l. False) 4"
  let ?a = "\<lparr>type = CLICK, selector = Some ''h1'', value = None, selector_type = CSS,
           timeout = 10000, description = None, metadata = None\<rparr>"
  have h2: "execute_action ?E (BrowserController_init CHROMIUM) ?a env0 =
     (\<lparr>success = False, action = ?a, output = PNone, error = Some ''Element not found: h1'',
       execution_time_ms = 1, screenshot_base64 = None, timestamp = ''2025-01-01T00:00:00''\<rparr>,
      BrowserController_init CHROMIUM,
      \<lparr>world = [''wait_for''],
       trace = [Logged (Trying ''css'' ''h1''), Logged (StrategyFailed ''css'' ''Timeout exceeded''),
                Logged (ActionFailed ''click'' ''Element not found: h1'')]\<rparr>)"
    by (simp add: executor_defs recording_engine_def)
  show ?thesis
    using h2 failed_result_carries_error [OF h2] by simp
qed

section \<open>The \<open>label\<close> selector type\<close>

lemma find_element_label:
  "find_element E sel LABEL tmo s = (None, logger (Trying ''label'' sel) s)"
  by (simp add: find_element_def strategies_def strategy_locator_def)

lemma locate_label:
  "selector_type a = LABEL \<Longrightarrow>
   locate E a sel msg s = (Inl (ValueError (msg @ sel)), logger (Trying ''label'' sel) s)"
  by (simp add: locate_def find_element_label raise_def)

lemmas label_defs =
  execute_action_def click_impl_def type_impl_def fill_impl_def
  select_impl_def check_impl_def uncheck_impl_def
  extract_attributes_impl_def hover_impl_def focus_impl_def
  press_key_impl_def wait_for_element_impl_def
  bind_exn_def return_def raise_def require_selector_def require_value_def
  require_truthy_value_def locate_label truthy_str_def truthy_val_def quoted_def Let_def
  requires_selector_def has_required_fields_def not_found_message_def

lemma label_action_fails:
  assumes "requires_selector (type a)" and "selector_type a = LABEL"
    and "execute_action E ctl a s = (r, ctl', s')"
  shows "\<not> success r \<and> world s' = world s \<and>
     (has_required_fields a \<longrightarrow>
        (\<exists>sel. selector a = Some sel \<and> error r = Some (not_found_message (type a) @ sel))) \<and>
     (\<not> has_required_fields a \<longrightarrow>
        (\<exists>m. error r = Some m \<and> \<not> prefix ''Element not found'' m))"
  using assms
  by (cases "type a")
     (auto simp: label_defs split: option.splits if_splits pyval.splits)

text \<open>
  Claim C9, as stated, fails: a selector-requiring action with selector type \<open>label\<close>
  that carries no selector is stopped by the check \<open>if not action.selector\<close> before any
  element resolution, and its error is the invalid-input message, not an
  element-not-found one.
\<close>

theorem label_without_selector_counterexample:
  "requires_selector CLICK \<and>
   error (fst (execute_action (recording_engine (\<lambda>l. True) 4) (BrowserController_init CHROMIUM)
            \<lparr>type = CLICK, selector = None, value = None, selector_type = LABEL,
             timeout = 10000, description = None, metadata = None\<rparr> env0)) =
     Some (''Click action requires '' @ quoted ''selector'') \<and>
   \<not> prefix ''Element not found'' (''Click action requires '' @ quoted ''selector'')"
  by (simp add: label_defs)

text \<open>
  Claim C9, amended. With selector type \<open>label\<close>, \<open>find_element\<close> returns \<open>None\<close> for
  every engine, selector string and timeout, after logging the one attempt and without
  calling the engine. Hence every selector-requiring action with that selector type
  fails and leaves the world as it was: with the element-not-found error when it carries
  its required selector and value, and with the invalid-input error of its field check
  otherwise.
\<close>

theorem label_selector_never_resolves:
  "find_element E sel LABEL tmo s = (None, logger (Trying ''label'' sel) s) \<and>
   (requires_selector (type a) \<and> selector_type a = LABEL \<and>
    execute_action E ctl a s = (r, ctl', s') \<longrightarrow>
      \<not> success r \<and> world s' = world s \<and>
      (has_required_fields a \<longrightarrow>
         (\<exists>sel. selector a = Some sel \<and> error r = Some (not_found_message (type a) @ sel))) \<and>
      (\<not> has_required_fields a \<longrightarrow>
         (\<exists>m. error r = Some m \<and> \<not> prefix ''Element not found'' m)))"
  using find_element_label label_action_fails by blast

theorem label_selector_never_resolves_witness:
  "requires_selector CLICK \<and>
   has_required_fields \<lparr>type = CLICK, selector = Some ''Submit'', value = None,
      selector_type = LABEL, timeout = 10000, description = None, metadata = None\<rparr> \<and>
   execute_action (recording_engine (\<lambda>l. True) 4) (BrowserController_init CHROMIUM)
      \<lparr>type = CLICK, selector = Some ''Submit'', value = None, selector_type = LABEL,
       timeout = 10000, description = None, metadata = None\<rparr> env0 =
     (\<lparr>success = False,
       action = \<lparr>type = CLICK, selector = Some ''Submit'', value = None,
                 selector_type = LABEL, timeout = 10000, description = None, metadata = None\<rparr>,
       output = PNone, error = Some ''Element not found: Submit'', execution_time_ms = 0,
       screenshot_base64 = None, timestamp = ''2025-01-01T00:00:00''\<rparr>,
      BrowserController_init CHROMIUM,
      \<lparr>world = [],
       trace = [Logged (Trying ''label'' ''Submit''),
                Logged (ActionFailed ''click'' ''Element not found: Submit'')]\<rparr>) \<and>
   find_element (recording_engine (\<lambda>l. True) 4) ''Submit'' LABEL 10000 env0 =
     (None, logger (Trying ''label'' ''Submit'') env0)"
proof -
  let ?E = "recording_engine (\<lambda>l. True) 4"
  let ?a = "\<lparr>type = CLICK, selector = Some ''Submit'', value = None,
      selector_type = LABEL, timeout = 10000, description = None, metadata = None\<rparr>"
  have h1: "requires_selector (type ?a)" "selector_type ?a = LABEL" "has_required_fields ?a"
    by (simp_all add: requires_selector_def has_required_fields_def truthy_str_def)
  have h2: "execute_action ?E (BrowserController_init CHROMIUM) ?a env0 =
     (\<lparr>success = False, action = ?a,
       output = PNone, error = Some ''Element not found: Submit'', execution_time_ms = 0,
       screenshot_base64 = None, timestamp = ''2025-01-01T00:00:00''\<rparr>,
      BrowserController_init CHROMIUM,
      \<lparr>world = [],
       trace = [Logged (Trying ''label'' ''Submit''),
                Logged (ActionFailed ''click'' ''Element not found: Submit'')]\<rparr>)"
    by (simp add: label_defs recording_engine_def env0_def logger_def)
  show ?thesis
    using h1 h2 label_selector_never_resolves [of ?E "''Submit''" 10000 env0 ?a
        "BrowserController_init CHROMIUM"]
    by simp
qed

section \<open>Properties of the run orchestrator\<close>

lemma action_event_not_milestone: "action_event e \<Longrightarrow> \<not> milestone e"
  by (cases e rule: milestone.cases) simp_all

lemma extends_by_mono: "(\<And>e. P e \<Longrightarrow> Q e) \<Longrightarrow> extends_by P s s' \<Longrightarrow> extends_by Q s s'"
  by (auto simp: extends_by_def list_all_iff)

lemma extends_by_filter:
  "extends_by (\<lambda>e. \<not> milestone e) s s' \<Longrightarrow> \<exists>new. trace s' = trace s @ new \<and> filter milestone new = []"
  by (auto simp: extends_by_def list_all_iff filter_empty_conv)

lemma execute_action_no_milestone:
  "execute_action E ctl a s = (r, ctl', s') \<Longrightarrow>
   \<exists>new. trace s' = trace s @ new \<and> filter milestone new = []"
  by (rule extends_by_filter, rule extends_by_mono [of action_event])
     (auto dest: execute_action_result simp: action_event_not_milestone)

lemma execute_action_page:
  "execute_action E ctl a s = (r, ctl', s') \<Longrightarrow> page ctl' = page ctl"
  by (auto simp: execute_action_def Let_def split: prod.splits sum.splits)

lemma stats_after_Cons: "stats_after st (r # rs) = stats_after (update_stats r st) rs"
  by (simp add: stats_after_def)

text \<open>An entry \<open>_parse_action\<close> rejects ends the loop there, with no result for it.\<close>

lemma run_actions_rejected_entry:
  "parse_action d = Inl e \<Longrightarrow>
   run_actions E i n (d # rest) ctl self s = ((Some e, ctl, self), logger (Executing i n (d_type d)) s)"
  by simp

lemma run_actions_char:
  "run_actions E i n ds ctl self s = ((exc, ctl', self'), s') \<Longrightarrow>
   \<exists>rs new. results self' = results self @ rs \<and>
         stats self' = stats_after (stats self) rs \<and>
         controller self' = controller self \<and> page ctl' = page ctl \<and>
         list_all (executed E) rs \<and>
         map (\<lambda>r. Inr (action r)) rs = map parse_action (take (length rs) ds) \<and>
         (case exc of
            None \<Rightarrow> length rs = length ds
          | Some e \<Rightarrow> length rs < length ds \<and> parse_action (ds ! length rs) = Inl e) \<and>
         trace s' = trace s @ new \<and>
         filter milestone new =
           milestones_of i n ds rs @
           (case exc of
              None \<Rightarrow> []
            | Some e \<Rightarrow> [Logged (Executing (i + length rs) n (d_type (ds ! length rs)))])"
proof (induction ds arbitrary: i ctl self s)
  case Nil
  then show ?case by (intro exI [of _ "[]"]) (auto simp: stats_after_def)
next
  case (Cons d rest)
  let ?s1 = "logger (Executing i n (d_type d)) s"
  show ?case
  proof (cases "parse_action d")
    case (Inl e)
    with Cons.prems have "exc = Some e" "ctl' = ctl" "self' = self" "s' = ?s1"
      by simp_all
    with Inl show ?thesis
      by (intro exI [of _ "[]"] exI [of _ "[Logged (Executing i n (d_type d))]"])
         (simp add: stats_after_def)
  next
    case (Inr a)
    obtain result ctl1 s2 where ex: "execute_action E ctl a ?s1 = (result, ctl1, s2)"
      by (cases "execute_action E ctl a ?s1")
    let ?self1 = "self\<lparr>results := results self @ [result],
                        stats := update_stats result (stats self)\<rparr>"
    let ?s4 = "push_data (action_result_item result) (log_outcome result s2)"
    from Cons.prems Inr ex
    have rest: "run_actions E (i + 1) n rest ctl1 ?self1 ?s4 = ((exc, ctl', self'), s')"
      by (simp add: Let_def)
    from Cons.IH [OF rest] obtain rs new where
      IH: "results self' = results ?self1 @ rs"
          "stats self' = stats_after (stats ?self1) rs"
          "controller self' = controller ?self1" "page ctl' = page ctl1"
          "list_all (executed E) rs"
          "map (\<lambda>r. Inr (action r)) rs = map parse_action (take (length rs) rest)"
          "case exc of None \<Rightarrow> length rs = length rest
           | Some e \<Rightarrow> length rs < length rest \<and> parse_action (rest ! length rs) = Inl e"
          "trace s' = trace ?s4 @ new"
          "filter milestone new =
             milestones_of (i + 1) n rest rs @
             (case exc of None \<Rightarrow> []
              | Some e \<Rightarrow> [Logged (Executing (i + 1 + length rs) n (d_type (rest ! length rs)))])"
      by blast
    from execute_action_no_milestone [OF ex] obtain new1 where
      new1: "trace s2 = trace ?s1 @ new1" "filter milestone new1 = []" by blast
    have act: "action result = a" using execute_action_result [OF ex] by simp
    have exd: "executed E result" unfolding executed_def using ex by blast
    have out: "\<exists>m. trace (log_outcome result s2) = trace s2 @ [Logged m] \<and> \<not> milestone (Logged m)"
      by (simp add: log_outcome_def)
    then obtain m where m: "trace (log_outcome result s2) = trace s2 @ [Logged m]"
      "\<not> milestone (Logged m)" by blast
    let ?new = "[Logged (Executing i n (d_type d))] @ new1 @ [Logged m,
                 Pushed (action_result_item result)] @ new"
    have tr: "trace s' = trace s @ ?new"
      using IH(8) new1(1) m(1) by simp
    have fm: "filter milestone ?new =
           milestones_of i n (d # rest) (result # rs) @
           (case exc of
              None \<Rightarrow> []
            | Some e \<Rightarrow> [Logged (Executing (i + length (result # rs)) n
                               (d_type ((d # rest) ! length (result # rs))))])"
      using IH(9) new1(2) m(2) by (cases exc) simp_all
    show ?thesis
      using IH(1-7) act exd Inr tr fm execute_action_page [OF ex]
      by (intro exI [of _ "result # rs"] exI [of _ ?new])
         (cases exc; simp add: stats_after_Cons)
  qed
qed

lemma update_stats_fields:
  "total_actions (update_stats r st) = total_actions st + 1"
  "successful_actions (update_stats r st) = successful_actions st + (if success r then 1 else 0)"
  "failed_actions (update_stats r st) = failed_actions st + (if success r then 0 else 1)"
  "screenshots_captured (update_stats r st) =
     screenshots_captured st + (if truthy_str (screenshot_base64 r) then 1 else 0)"
  "total_execution_time_ms (update_stats r st) = total_execution_time_ms st + execution_time_ms r"
  by (simp_all add: update_stats_def Let_def)

lemma stats_after_fields:
  "total_actions (stats_after st rs) = total_actions st + length rs"
  "successful_actions (stats_after st rs) = successful_actions st + length (filter success rs)"
  "failed_actions (stats_after st rs) =
     failed_actions st + length (filter (\<lambda>r. \<not> success r) rs)"
  "screenshots_captured (stats_after st rs) =
     screenshots_captured st + length (filter (\<lambda>r. truthy_str (screenshot_base64 r)) rs)"
  by (induction rs arbitrary: st) (simp_all add: stats_after_def update_stats_fields)

lemma stats_after_Nil [simp]: "stats_after st [] = st"
  by (simp add: stats_after_def)

lemma stats_after_append: "stats_after st (rs @ rs') = stats_after (stats_after st rs) rs'"
  by (simp add: stats_after_def)

lemma update_stats_consistent: "stats_consistent st \<Longrightarrow> stats_consistent (update_stats r st)"
  by (simp add: stats_consistent_def update_stats_fields)

lemma stats_after_consistent: "stats_consistent st \<Longrightarrow> stats_consistent (stats_after st rs)"
  by (induction rs arbitrary: st) (simp_all add: stats_after_Cons update_stats_consistent)

lemma executed_screenshot:
  assumes "\<forall>w bs w'. page_screenshot E w = (Inr bs, w') \<longrightarrow> bs \<noteq> []" and "executed E r"
  shows "truthy_str (screenshot_base64 r) \<longleftrightarrow> type (action r) = SCREENSHOT \<and> success r"
proof -
  from assms(2) obtain ctl a s ctl' s' where ex: "execute_action E ctl a s = (r, ctl', s')"
    by (auto simp: executed_def)
  note res = execute_action_result [OF ex]
  show ?thesis
  proof (cases "success r")
    case False
    with res show ?thesis by (simp add: truthy_str_def)
  next
    case True
    show ?thesis
    proof (cases "type a = SCREENSHOT")
      case False
      with True res show ?thesis by (simp add: truthy_str_def)
    next
      case shot: True
      with True res obtain bs w w' where "page_screenshot E w = (Inr bs, w')"
        "screenshot_base64 r = Some (b64encode bs)" by auto
      with assms(1) True shot res show ?thesis by (auto simp: truthy_str_def)
    qed
  qed
qed

lemma call_trace [simp]: "call f s = (r, s') \<Longrightarrow> trace s' = trace s"
  by (auto simp: call_def split: prod.splits sum.splits)

lemma not_milestone_log: "\<not> (\<exists>i n t. m = Executing i n t) \<Longrightarrow> \<not> milestone (Logged m)"
  by (cases m) simp_all

lemma configure_proxy_quiet:
  "configure_proxy E p s = (r, s') \<Longrightarrow> extends_by (\<lambda>e. \<not> milestone e) s s' \<and> world s' = world s"
  by (auto simp: configure_proxy_def Let_def extends_by_def split: option.splits sum.splits if_splits)

lemma apply_stealth_mode_quiet:
  "apply_stealth_mode E c s = (r, s') \<Longrightarrow> extends_by (\<lambda>e. \<not> milestone e) s s'"
  by (auto simp: apply_stealth_mode_def bind_exn_def return_def extends_by_def call_def
      split: prod.splits sum.splits)

lemma launch_quiet:
  "launch E c h p st s = (r, s') \<Longrightarrow> extends_by (\<lambda>e. \<not> milestone e) s s'"
  unfolding launch_def launch_failed_def Let_def return_def
  by (auto split: prod.splits sum.splits if_splits
      dest!: configure_proxy_quiet apply_stealth_mode_quiet call_trace
      simp: extends_by_def)

lemma launch_page:
  "launch E (BrowserController_init bt) h p st s = ((x, ctl), s') \<Longrightarrow> (x = None \<longleftrightarrow> page ctl \<noteq> None)"
  unfolding launch_def launch_failed_def Let_def return_def BrowserController_init_def
  by (auto split: prod.splits sum.splits if_splits)

lemma close_trace:
  "trace (close E c s) = trace s @ [Logged BrowserClosed] \<or>
   (\<exists>m. trace (close E c s) = trace s @ [Logged (ErrorClosing m)])"
  by (auto simp: close_def bind_exn_def when_held_def return_def call_def
      split: prod.splits sum.splits option.splits)

lemma close_quiet: "extends_by (\<lambda>e. \<not> milestone e) s (close E c s)"
  using close_trace [of E c s] by (auto simp: extends_by_def)

lemma export_data_quiet: "extends_by (\<lambda>e. \<not> milestone e) s (export_data E out fmt s)"
  by (auto simp: export_data_def Let_def extends_by_def call_def
      split: prod.splits sum.splits option.splits)

lemma validate_input_list:
  "validate_input [(''actions'', acts)] = None \<Longrightarrow> \<exists>l. acts = ActionList l \<and> l \<noteq> []"
  by (auto simp: validate_input_def split: json_actions.splits if_splits)

lemma run_try_launched:
  assumes run: "run_try E inp self s = ((exc, self'), s')"
    and none: "controller self = None"
    and launched: "\<exists>ctl. controller self' = Some ctl \<and> page ctl \<noteq> None"
  shows "\<exists>ds ctl s4 ctl1 self1 s5.
           select_actions inp = Inr (ActionList ds) \<and> ds \<noteq> [] \<and>
           extends_by (\<lambda>e. \<not> milestone e) s s4 \<and>
           run_actions E 1 (length ds) ds ctl self s4 = ((exc, ctl1, self1), s5) \<and>
           self' = self1\<lparr>controller := Some ctl1\<rparr> \<and>
           (case exc of
              Some e \<Rightarrow> s' = s5
            | None \<Rightarrow> \<exists>post. trace s' = trace s5 @ post \<and>
                filter milestone post = [Pushed (prepare_output E self' (world s5))])"
proof -
  let ?s1 = "if truthy_str (in_template inp)
             then logger (UsingTemplate (get_default (in_template inp) [])) s else s"
  have q1: "extends_by (\<lambda>e. \<not> milestone e) s ?s1"
    by (simp add: extends_by_def)
  show ?thesis
  proof (cases "select_actions inp")
    case (Inl e)
    with run have "self' = self" by (simp add: run_try_def Let_def)
    with none launched show ?thesis by simp
  next
    case (Inr acts)
    show ?thesis
    proof (cases "validate_input [(''actions'', acts)]")
      case (Some e)
      with run Inr have "self' = self" by (simp add: run_try_def Let_def)
      with none launched show ?thesis by simp
    next
      case None
      from validate_input_list [OF None] obtain ds where ds: "acts = ActionList ds" "ds \<noteq> []"
        by blast
      note Inr = Inr [unfolded ds(1)] and None = None [unfolded ds(1)]
      have lo [simp]: "list_of (ActionList ds) = ds" by (simp add: list_of_def)
      let ?s2 = "if truthy_str (in_template inp)
                 then logger (GeneratedFromTemplate (length (list_of (ActionList ds)))) ?s1
                 else ?s1"
      have q2: "extends_by (\<lambda>e. \<not> milestone e) s ?s2"
        by (simp add: extends_by_def)
      show ?thesis
      proof (cases "BrowserType_of (Some (get_default (in_browser_type inp) ''chromium''))")
        case (Inl e)
        with run Inr None have "self' = self" by (simp add: run_try_def Let_def)
        with none launched show ?thesis by simp
      next
        case bt: (Inr bt)
        obtain x ctl s3 where l: "launch E (BrowserController_init bt)
            (get_default (in_headless inp) True) (in_proxy inp)
            (get_default (in_stealth_mode inp) False) ?s2 = ((x, ctl), s3)"
          by (metis prod.collapse)
        note lp = launch_page [OF l]
        show ?thesis
        proof (cases x)
          case (Some e)
          with run Inr None bt l have "self' = self\<lparr>controller := Some ctl\<rparr>"
            by (simp add: run_try_def Let_def)
          with launched lp Some show ?thesis by simp
        next
          case xn: None
          let ?s4 = "logger (ExecutingActions (length ds))
                       (logger (BrowserInitialized (BrowserType_value bt)) s3)"
          have q4: "extends_by (\<lambda>e. \<not> milestone e) s ?s4"
            using extends_by_trans [OF q2 launch_quiet [OF l]]
            by (auto simp: extends_by_def)
          obtain y ctl1 self1 s5 where
            ra: "run_actions E 1 (length ds) ds ctl self ?s4 = ((y, ctl1, self1), s5)"
            by (metis prod.collapse)
          show ?thesis
          proof (cases y)
            case (Some e)
            with run Inr None bt l xn ra
            have "exc = Some e" "self' = self1\<lparr>controller := Some ctl1\<rparr>" "s' = s5"
              by (simp_all add: run_try_def Let_def)
            with Inr ds q4 ra Some
            have "select_actions inp = Inr (ActionList ds) \<and> ds \<noteq> [] \<and>
               extends_by (\<lambda>e. \<not> milestone e) s ?s4 \<and>
               run_actions E 1 (length ds) ds ctl self ?s4 = ((exc, ctl1, self1), s5) \<and>
               self' = self1\<lparr>controller := Some ctl1\<rparr> \<and>
               (case exc of
                  Some e \<Rightarrow> s' = s5
                | None \<Rightarrow> \<exists>post. trace s' = trace s5 @ post \<and>
                    filter milestone post = [Pushed (prepare_output E self' (world s5))])"
              by simp
            then show ?thesis by blast
          next
            case yn: None
            let ?self2 = "self1\<lparr>controller := Some ctl1\<rparr>"
            let ?out = "prepare_output E ?self2 (world s5)"
            let ?s6 = "logger (Stats (stats ?self2)) (logger Completed s5)"
            let ?fmt = "get_default (in_export_format inp) ''json''"
            let ?s7 = "if ?fmt \<noteq> ''json'' then export_data E ?out ?fmt ?s6 else ?s6"
            from run Inr None bt l xn ra yn
            have e: "exc = None" "self' = ?self2" "s' = push_data ?out ?s7"
              by (auto simp: run_try_def Let_def)
            have "extends_by (\<lambda>e. \<not> milestone e) s5 ?s7"
              using export_data_quiet [of ?s6 E ?out ?fmt]
              by (auto simp: extends_by_def)
            then obtain p where p: "trace ?s7 = trace s5 @ p" "filter milestone p = []"
              by (auto dest: extends_by_filter)
            have "trace s' = trace s5 @ (p @ [Pushed ?out]) \<and>
                  filter milestone (p @ [Pushed ?out]) = [Pushed (prepare_output E self' (world s5))]"
              using e p by simp
            then have post: "\<exists>post. trace s' = trace s5 @ post \<and>
                  filter milestone post = [Pushed (prepare_output E self' (world s5))]"
              by blast
            from Inr ds q4 ra yn e(1,2) post
            have "select_actions inp = Inr (ActionList ds) \<and> ds \<noteq> [] \<and>
               extends_by (\<lambda>e. \<not> milestone e) s ?s4 \<and>
               run_actions E 1 (length ds) ds ctl self ?s4 = ((exc, ctl1, self1), s5) \<and>
               self' = self1\<lparr>controller := Some ctl1\<rparr> \<and>
               (case exc of
                  Some e \<Rightarrow> s' = s5
                | None \<Rightarrow> \<exists>post. trace s' = trace s5 @ post \<and>
                    filter milestone post = [Pushed (prepare_output E self' (world s5))])"
              by simp
            then show ?thesis by blast
          qed
        qed
      qed
    qed
  qed
qed

lemma run_unfold:
  assumes "run E actor_input self s = ((exc, self'), s')"
  shows "\<exists>s0 s1. extends_by (\<lambda>e. \<not> milestone e) s s0 \<and> world s0 = world s \<and>
           run_try E (snd (effective_input actor_input)) self s0 = ((exc, self'), s1) \<and>
           s' = (case controller self' of
                   None \<Rightarrow> (\<lambda>x. x)
                 | Some ctl \<Rightarrow> close E ctl)
                (case exc of
                   None \<Rightarrow> s1
                 | Some e \<Rightarrow>
                     push_data (PDict [(''success'', PBool False), (''error'', PStr (str_exn e)),
                                       (''stats'', stats_dict (stats self'))])
                       (logger (ActorFailed (str_exn e)) s1))"
proof -
  obtain dflt inp where ei: "effective_input actor_input = (dflt, inp)"
    by (cases "effective_input actor_input")
  let ?s0 = "logger (ReceivedInput inp)
               (if dflt then logger LoadedDefaults (logger NoInputProvided s) else s)"
  obtain x self1 s1 where rt: "run_try E inp self ?s0 = ((x, self1), s1)"
    by (metis prod.collapse)
  from assms ei rt have "exc = x" "self' = self1"
    by (auto simp: run_def Let_def)
  moreover from assms ei rt have "s' = (case controller self1 of
                   None \<Rightarrow> (\<lambda>x. x)
                 | Some ctl \<Rightarrow> close E ctl)
                (case x of
                   None \<Rightarrow> s1
                 | Some e \<Rightarrow>
                     push_data (PDict [(''success'', PBool False), (''error'', PStr (str_exn e)),
                                       (''stats'', stats_dict (stats self1))])
                       (logger (ActorFailed (str_exn e)) s1))"
    by (auto simp: run_def Let_def split: option.splits)
  moreover have "extends_by (\<lambda>e. \<not> milestone e) s ?s0" "world ?s0 = world s"
    by (simp_all add: extends_by_def)
  ultimately show ?thesis using rt ei by auto
qed

lemma is_action_parse: "list_all is_action ds \<Longrightarrow> k < length ds \<Longrightarrow> parse_action (ds ! k) \<noteq> Inl e"
  by (auto simp: list_all_length is_action_def split: sum.splits)

lemma run_launched_char:
  assumes run: "run E actor_input PlaywrightMCPActor_init s = ((exc, self'), s')"
    and launched: "\<exists>ctl. controller self' = Some ctl \<and> page ctl \<noteq> None"
    and sel: "select_actions (snd (effective_input actor_input)) = Inr (ActionList ds)"
  shows "list_all (executed E) (results self') \<and>
         map (\<lambda>r. Inr (action r)) (results self') =
           map parse_action (take (length (results self')) ds) \<and>
         (case exc of
            None \<Rightarrow> length (results self') = length ds
          | Some e \<Rightarrow> length (results self') < length ds \<and>
              parse_action (ds ! length (results self')) = Inl e) \<and>
         (exc = None \<longleftrightarrow> list_all is_action ds) \<and>
         (\<exists>new w. trace s' = trace s @ new \<and>
            filter milestone new =
              milestones_of 1 (length ds) ds (results self') @
              (case exc of
                 None \<Rightarrow> [Pushed (prepare_output E self' w)]
               | Some e \<Rightarrow>
                   [Logged (Executing (1 + length (results self')) (length ds)
                              (d_type (ds ! length (results self')))),
                    Pushed (failure_item e (stats self'))]))"
proof -
  let ?inp = "snd (effective_input actor_input)"
  from run_unfold [OF run] obtain s0 s1 where
    q0: "extends_by (\<lambda>e. \<not> milestone e) s s0"
    and rt: "run_try E ?inp PlaywrightMCPActor_init s0 = ((exc, self'), s1)"
    and s': "s' = (case controller self' of None \<Rightarrow> (\<lambda>x. x) | Some ctl \<Rightarrow> close E ctl)
                (case exc of
                   None \<Rightarrow> s1
                 | Some e \<Rightarrow>
                     push_data (PDict [(''success'', PBool False), (''error'', PStr (str_exn e)),
                                       (''stats'', stats_dict (stats self'))])
                       (logger (ActorFailed (str_exn e)) s1))"
    by blast
  have c0: "controller PlaywrightMCPActor_init = None"
    by (simp add: PlaywrightMCPActor_init_def)
  from run_try_launched [OF rt c0 launched] sel obtain ctl s4 ctl1 self1 s5 where
    q4: "extends_by (\<lambda>e. \<not> milestone e) s0 s4"
    and ra: "run_actions E 1 (length ds) ds ctl PlaywrightMCPActor_init s4 = ((exc, ctl1, self1), s5)"
    and self': "self' = self1\<lparr>controller := Some ctl1\<rparr>"
    and fin: "case exc of
              Some e \<Rightarrow> s1 = s5
            | None \<Rightarrow> \<exists>post. trace s1 = trace s5 @ post \<and>
                filter milestone post = [Pushed (prepare_output E self' (world s5))]"
    by auto
  from run_actions_char [OF ra] obtain rs new where
    rs: "results self1 = results PlaywrightMCPActor_init @ rs"
      "list_all (executed E) rs"
      "map (\<lambda>r. Inr (action r)) rs = map parse_action (take (length rs) ds)"
      "case exc of None \<Rightarrow> length rs = length ds
       | Some e \<Rightarrow> length rs < length ds \<and> parse_action (ds ! length rs) = Inl e"
      "trace s5 = trace s4 @ new"
      "filter milestone new =
           milestones_of 1 (length ds) ds rs @
           (case exc of
              None \<Rightarrow> []
            | Some e \<Rightarrow> [Logged (Executing (1 + length rs) (length ds) (d_type (ds ! length rs)))])"
    by blast
  have res: "results self' = rs"
    using rs(1) self' by (simp add: PlaywrightMCPActor_init_def)
  from launched obtain c where c: "controller self' = Some c" by blast
  from extends_by_trans [OF q0 q4] obtain pre where pre: "trace s4 = trace s @ pre"
    "filter milestone pre = []"
    by (auto dest: extends_by_filter)
  have iff: "exc = None \<longleftrightarrow> list_all is_action ds"
  proof
    assume "exc = None"
    with rs(4) have "length rs = length ds" by simp
    with rs(3) have m: "map parse_action ds = map (\<lambda>r. Inr (action r)) rs" by simp
    have "is_action d" if "d \<in> set ds" for d
    proof -
      from that have "parse_action d \<in> set (map parse_action ds)" by simp
      with m have "\<exists>a. parse_action d = Inr a" by auto
      then show ?thesis by (auto simp: is_action_def)
    qed
    then show "list_all is_action ds" by (simp add: list_all_iff)
  next
    assume wf: "list_all is_action ds"
    show "exc = None"
    proof (cases exc)
      case (Some e)
      with rs(4) is_action_parse [OF wf, of "length rs" e] show ?thesis by simp
    qed simp
  qed
  have tr: "\<exists>new w. trace s' = trace s @ new \<and>
            filter milestone new =
              milestones_of 1 (length ds) ds rs @
              (case exc of
                 None \<Rightarrow> [Pushed (prepare_output E self' w)]
               | Some e \<Rightarrow>
                   [Logged (Executing (1 + length rs) (length ds) (d_type (ds ! length rs))),
                    Pushed (failure_item e (stats self'))])"
  proof (cases exc)
    case None
    with fin obtain post where post: "trace s1 = trace s5 @ post"
      "filter milestone post = [Pushed (prepare_output E self' (world s5))]" by auto
    from c s' None have "s' = close E c s1" by simp
    with close_quiet [of s1 E c] obtain cl where
      cl: "trace s' = trace s1 @ cl" "filter milestone cl = []"
      by (auto dest: extends_by_filter)
    have "trace s' = trace s @ (pre @ new @ post @ cl)"
      using cl(1) post(1) rs(5) pre(1) by simp
    moreover have "filter milestone (pre @ new @ post @ cl) =
        milestones_of 1 (length ds) ds rs @ [Pushed (prepare_output E self' (world s5))]"
      using cl(2) post(2) rs(6) pre(2) None by simp
    ultimately show ?thesis using None by auto
  next
    case (Some e)
    let ?f = "PDict [(''success'', PBool False), (''error'', PStr (str_exn e)),
                     (''stats'', stats_dict (stats self'))]"
    let ?s2 = "push_data ?f (logger (ActorFailed (str_exn e)) s5)"
    from fin Some have "s1 = s5" by simp
    with c s' Some have "s' = close E c ?s2" by simp
    with close_quiet [of ?s2 E c] obtain cl where
      cl: "trace s' = trace ?s2 @ cl" "filter milestone cl = []"
      by (auto dest: extends_by_filter)
    let ?post = "[Logged (ActorFailed (str_exn e)), Pushed ?f]"
    have "trace s' = trace s @ (pre @ new @ ?post @ cl)"
      using cl(1) rs(5) pre(1) by simp
    moreover have "filter milestone (pre @ new @ ?post @ cl) =
        milestones_of 1 (length ds) ds rs @
          [Logged (Executing (1 + length rs) (length ds) (d_type (ds ! length rs))),
           Pushed (failure_item e (stats self'))]"
      using cl(2) rs(6) pre(2) Some by (simp add: failure_item_def)
    ultimately show ?thesis using Some by auto
  qed
  from rs(2,3,4) iff tr show ?thesis unfolding res by blast
qed


lemmas run_defs =
  run_def effective_input_def run_try_def select_actions_def validate_input_def
  BrowserType_of_def all_BrowserTypes_def launch_def launch_failed_def configure_proxy_def
  apply_stealth_mode_def parse_action_def ActionType_of_def all_ActionTypes_def
  SelectorType_of_def all_SelectorTypes_def not_a_valid_def to_dict_def update_stats_def
  log_outcome_def prepare_output_def stats_dict_def close_def when_held_def act_def
  get_default_def list_of_def PlaywrightMCPActor_init_def action_result_item_def
  truthy_actions_def empty_input_def default_input_def export_data_def get_template_def
  demo_input_def bogus_input_def string_actions_input_def repr_str_def repr_char_def
  recording_engine_def executor_defs

lemma demo_run:
  "run (recording_engine (\<lambda>l. False) 4) (Some demo_input) PlaywrightMCPActor_init env0 =
     ((None,
        \<lparr>controller =
           Some
            \<lparr>browser_type = CHROMIUM, browser = Some 2, context = Some 3,
               page = Some 4, playwright = Some 1, action_count = 1,
               start_time = Some ''2025-01-01T00:00:00''\<rparr>,
           results =
             [\<lparr>success = False,
                 action =
                   \<lparr>type = CLICK, selector = Some ''#missing'', value = None,
                      selector_type = AUTO, timeout = 10000, description = None,
                      metadata = None\<rparr>,
                 output = PNone, error = Some ''Element not found: #missing'',
                 execution_time_ms = 4, screenshot_base64 = None,
                 timestamp = ''2025-01-01T00:00:00''\<rparr>,
              \<lparr>success = True,
                 action =
                   \<lparr>type = GET_TITLE, selector = None, value = None,
                      selector_type = AUTO, timeout = 10000, description = None,
                      metadata = None\<rparr>,
                 output = PStr ''Example Domain'', error = None,
                 execution_time_ms = 1, screenshot_base64 = None,
                 timestamp = ''2025-01-01T00:00:00''\<rparr>],
           stats =
             \<lparr>total_actions = 2, successful_actions = 1, failed_actions = 1,
                total_execution_time_ms = 5, screenshots_captured = 0\<rparr>\<rparr>),
       \<lparr>world =
          [''playwright.start'', ''browser.launch'', ''new_context'',
           ''new_page'', ''wait_for'', ''wait_for'', ''wait_for'', ''wait_for'',
           ''title'', ''context.close'', ''browser.close'', ''playwright.stop''],
          trace =
            [Logged (ReceivedInput demo_input),
             Logged (BrowserLaunched ''chromium'' False),
             Logged (BrowserInitialized ''chromium''),
             Logged (ExecutingActions 2),
             Logged (Executing 1 2 (Some ''click'')),
             Logged (Trying ''css'' ''#missing''),
             Logged (StrategyFailed ''css'' ''Timeout exceeded''),
             Logged (Trying ''xpath'' ''#missing''),
             Logged (StrategyFailed ''xpath'' ''Timeout exceeded''),
             Logged (Trying ''text'' ''#missing''),
             Logged (StrategyFailed ''text'' ''Timeout exceeded''),
             Logged (Trying ''role'' ''#missing''),
             Logged (StrategyFailed ''role'' ''Timeout exceeded''),
             Logged (ActionFailed ''click'' ''Element not found: #missing''),
             Logged (ActionFailure (Some ''Element not found: #missing'')),
             Pushed
              (PDict
                [(''type'', PStr ''action_result''),
                 (''data'',
                  PDict
                   [(''type'', PStr ''click''), (''success'', PBool False),
                    (''execution_time_ms'', PInt 4), (''output'', PNone),
                    (''timestamp'', PStr ''2025-01-01T00:00:00''),
                    (''selector'', PStr ''#missing''),
                    (''error'', PStr ''Element not found: #missing'')])]),
             Logged (Executing 2 2 (Some ''get_title'')),
             Logged (ActionSuccess 1),
             Pushed
              (PDict
                [(''type'', PStr ''action_result''),
                 (''data'',
                  PDict
                   [(''type'', PStr ''get_title''), (''success'', PBool True),
                    (''execution_time_ms'', PInt 1),
                    (''output'', PStr ''Example Domain''),
                    (''timestamp'', PStr ''2025-01-01T00:00:00'')])]),
             Logged Completed,
             Logged
              (Stats
                \<lparr>total_actions = 2, successful_actions = 1, failed_actions = 1,
                   total_execution_time_ms = 5, screenshots_captured = 0\<rparr>),
             Pushed
              (PDict
                [(''success'', PBool False),
                 (''stats'',
                  PDict
                   [(''total_actions'', PInt 2),
                    (''successful_actions'', PInt 1),
                    (''failed_actions'', PInt 1),
                    (''total_execution_time_ms'', PInt 5),
                    (''screenshots_captured'', PInt 0)]),
                 (''actions'',
                  PList
                   [PDict
                     [(''type'', PStr ''click''), (''success'', PBool False),
                      (''execution_time_ms'', PInt 4), (''output'', PNone),
                      (''timestamp'', PStr ''2025-01-01T00:00:00''),
                      (''selector'', PStr ''#missing''),
                      (''error'', PStr ''Element not found: #missing'')],
                    PDict
                     [(''type'', PStr ''get_title''), (''success'', PBool True),
                      (''execution_time_ms'', PInt 1),
                      (''output'', PStr ''Example Domain''),
                      (''timestamp'', PStr ''2025-01-01T00:00:00'')]]),
                 (''timestamp'', PStr ''2025-01-01T00:00:00'')]),
             Logged BrowserClosed]\<rparr>)"
  by (simp add: run_defs)

lemma run_try_outcome:
  assumes run: "run_try E inp self s = ((exc, self'), s')"
    and none: "controller self = None"
  shows "(\<exists>rs. results self' = results self @ rs \<and>
            stats self' = stats_after (stats self) rs \<and> list_all (executed E) rs) \<and>
         (exc = None \<longrightarrow> (\<exists>ctl. controller self' = Some ctl \<and> page ctl \<noteq> None)) \<and>
         (controller self' = None \<longrightarrow> self' = self \<and> world s' = world s \<and> exc \<noteq> None)"
proof -
  let ?s1 = "if truthy_str (in_template inp)
             then logger (UsingTemplate (get_default (in_template inp) [])) s else s"
  have base: "\<exists>rs. results self = results self @ rs \<and>
            stats self = stats_after (stats self) rs \<and> list_all (executed E) rs"
    by (intro exI [of _ "[]"]) simp
  show ?thesis
  proof (cases "select_actions inp")
    case (Inl e)
    with run have "self' = self" "exc = Some e" "s' = ?s1" by (auto simp: run_try_def Let_def)
    with base show ?thesis by simp
  next
    case (Inr acts)
    let ?s2 = "if truthy_str (in_template inp)
               then logger (GeneratedFromTemplate (length (list_of acts))) ?s1 else ?s1"
    have w2: "world ?s2 = world s" by simp
    show ?thesis
    proof (cases "validate_input [(''actions'', acts)]")
      case (Some e)
      with run Inr have "self' = self" "exc = Some e" "s' = ?s2"
        by (auto simp: run_try_def Let_def)
      with base show ?thesis by simp
    next
      case None
      show ?thesis
      proof (cases "BrowserType_of (Some (get_default (in_browser_type inp) ''chromium''))")
        case (Inl e)
        with run Inr None have "self' = self" "exc = Some e" "s' = ?s2"
          by (auto simp: run_try_def Let_def)
        with base show ?thesis by simp
      next
        case bt: (Inr bt)
        obtain x ctl s3 where l: "launch E (BrowserController_init bt)
            (get_default (in_headless inp) True) (in_proxy inp)
            (get_default (in_stealth_mode inp) False) ?s2 = ((x, ctl), s3)"
          by (metis prod.collapse)
        note lp = launch_page [OF l]
        show ?thesis
        proof (cases x)
          case (Some e)
          with run Inr None bt l have "self' = self\<lparr>controller := Some ctl\<rparr>" "exc = Some e"
            by (auto simp: run_try_def Let_def)
          with base show ?thesis by simp
        next
          case xn: None
          let ?s4 = "logger (ExecutingActions (length (list_of acts)))
                       (logger (BrowserInitialized (BrowserType_value bt)) s3)"
          obtain y ctl1 self1 s5 where
            ra: "run_actions E 1 (length (list_of acts)) (list_of acts) ctl self ?s4 =
                   ((y, ctl1, self1), s5)"
            by (metis prod.collapse)
          from run_actions_char [OF ra] obtain rs where
            rs: "results self1 = results self @ rs" "stats self1 = stats_after (stats self) rs"
              "list_all (executed E) rs" "page ctl1 = page ctl"
            by blast
          from run Inr None bt l xn ra
          have s: "self' = self1\<lparr>controller := Some ctl1\<rparr>" "exc = y"
            by (auto simp: run_try_def Let_def split: option.splits)
          from rs s lp xn show ?thesis by auto
        qed
      qed
    qed
  qed
qed

lemma run_outcome:
  assumes run: "run E actor_input PlaywrightMCPActor_init s = ((exc, self'), s')"
  shows "stats self' = stats_after (stats PlaywrightMCPActor_init) (results self') \<and>
         list_all (executed E) (results self') \<and>
         (exc = None \<longrightarrow> (\<exists>ctl. controller self' = Some ctl \<and> page ctl \<noteq> None)) \<and>
         (controller self' = None \<longrightarrow> world s' = world s \<and> exc \<noteq> None \<and>
            self' = PlaywrightMCPActor_init)"
proof -
  from run_unfold [OF run] obtain s0 s1 where
    w0: "world s0 = world s"
    and rt: "run_try E (snd (effective_input actor_input)) PlaywrightMCPActor_init s0 =
              ((exc, self'), s1)"
    and s': "s' = (case controller self' of None \<Rightarrow> (\<lambda>x. x) | Some ctl \<Rightarrow> close E ctl)
                (case exc of
                   None \<Rightarrow> s1
                 | Some e \<Rightarrow>
                     push_data (PDict [(''success'', PBool False), (''error'', PStr (str_exn e)),
                                       (''stats'', stats_dict (stats self'))])
                       (logger (ActorFailed (str_exn e)) s1))"
    by blast
  have c0: "controller PlaywrightMCPActor_init = None" "results PlaywrightMCPActor_init = []"
    by (simp_all add: PlaywrightMCPActor_init_def)
  note out = run_try_outcome [OF rt c0(1)]
  from out c0(2) have "stats self' = stats_after (stats PlaywrightMCPActor_init) (results self')"
    "list_all (executed E) (results self')" by auto
  moreover from out have "exc = None \<longrightarrow> (\<exists>ctl. controller self' = Some ctl \<and> page ctl \<noteq> None)"
    by blast
  moreover have "controller self' = None \<longrightarrow> world s' = world s \<and> exc \<noteq> None \<and>
            self' = PlaywrightMCPActor_init"
    using out s' w0 by (auto split: option.splits)
  ultimately show ?thesis by blast
qed

lemma b64encode_demo: "b64encode [137, 80, 78] = ''iVBO''"
  by (simp add: b64c_def Let_def)

lemma show_nat_3: "show_nat (Suc (Suc (Suc 0))) = ''3''"
  by (simp add: show_nat.simps)

lemma default_run:
  "run (recording_engine (\<lambda>l. l = PageLocator ''css=h1'') 4) None PlaywrightMCPActor_init env0 =
     ((None,
        \<lparr>controller =
           Some
            \<lparr>browser_type = CHROMIUM, browser = Some 2, context = Some 3,
               page = Some 4, playwright = Some 1, action_count = 4,
               start_time = Some ''2025-01-01T00:00:00''\<rparr>,
           results =
             [\<lparr>success = True,
                 action =
                   \<lparr>type = NAVIGATE, selector = None,
                      value = Some (VStr ''https://example.com''),
                      selector_type = AUTO, timeout = 10000,
                      description = Some ''Navigate to example.com for testing'',
                      metadata = None\<rparr>,
                 output = PStr ''https://example.com/'', error = None,
                 execution_time_ms = 1, screenshot_base64 = None,
                 timestamp = ''2025-01-01T00:00:00''\<rparr>,
              \<lparr>success = True,
                 action =
                   \<lparr>type = GET_TITLE, selector = None, value = None,
                      selector_type = AUTO, timeout = 10000,
                      description = Some ''Get page title to verify page load'',
                      metadata = None\<rparr>,
                 output = PStr ''Example Domain'', error = None,
                 execution_time_ms = 1, screenshot_base64 = None,
                 timestamp = ''2025-01-01T00:00:00''\<rparr>,
              \<lparr>success = True,
                 action =
                   \<lparr>type = EXTRACT_TEXT, selector = Some ''h1'', value = None,
                      selector_type = AUTO, timeout = 10000,
                      description = Some ''Extract heading text'',
                      metadata = None\<rparr>,
                 output = PStr ''Example Domain'', error = None,
                 execution_time_ms = 2, screenshot_base64 = None,
                 timestamp = ''2025-01-01T00:00:00''\<rparr>,
              \<lparr>success = True,
                 action =
                   \<lparr>type = SCREENSHOT, selector = None, value = None,
                      selector_type = AUTO, timeout = 10000,
                      description =
                        Some ''Capture screenshot to verify rendering'',
                      metadata = None\<rparr>,
                 output = PStr ''Screenshot captured (3 bytes)'', error = None,
                 execution_time_ms = 1, screenshot_base64 = Some ''iVBO'',
                 timestamp = ''2025-01-01T00:00:00''\<rparr>],
           stats =
             \<lparr>total_actions = 4, successful_actions = 4, failed_actions = 0,
                total_execution_time_ms = 5, screenshots_captured = 1\<rparr>\<rparr>),
       \<lparr>world =
          [''playwright.start'', ''browser.launch'', ''new_context'',
           ''new_page'', ''goto'', ''title'', ''wait_for'', ''text_content'',
           ''screenshot'', ''context.close'', ''browser.close'',
           ''playwright.stop''],
          trace =
            [Logged NoInputProvided, Logged LoadedDefaults,
             Logged (ReceivedInput default_input),
             Logged (BrowserLaunched ''chromium'' False),
             Logged (BrowserInitialized ''chromium''),
             Logged (ExecutingActions 4),
             Logged (Executing 1 4 (Some ''navigate'')),
             Logged (ActionSuccess 1),
             Pushed
              (PDict
                [(''type'', PStr ''action_result''),
                 (''data'',
                  PDict
                   [(''type'', PStr ''navigate''), (''success'', PBool True),
                    (''execution_time_ms'', PInt 1),
                    (''output'', PStr ''https://example.com/''),
                    (''timestamp'', PStr ''2025-01-01T00:00:00''),
                    (''value'', PStr ''https://example.com''),
                    (''description'',
                     PStr ''Navigate to example.com for testing'')])]),
             Logged (Executing 2 4 (Some ''get_title'')),
             Logged (ActionSuccess 1),
             Pushed
              (PDict
                [(''type'', PStr ''action_result''),
                 (''data'',
                  PDict
                   [(''type'', PStr ''get_title''), (''success'', PBool True),
                    (''execution_time_ms'', PInt 1),
                    (''output'', PStr ''Example Domain''),
                    (''timestamp'', PStr ''2025-01-01T00:00:00''),
                    (''description'',
                     PStr ''Get page title to verify page load'')])]),
             Logged (Executing 3 4 (Some ''extract_text'')),
             Logged (Trying ''css'' ''h1''), Logged (FoundUsing ''css''),
             Logged (ActionSuccess 2),
             Pushed
              (PDict
                [(''type'', PStr ''action_result''),
                 (''data'',
                  PDict
                   [(''type'', PStr ''extract_text''), (''success'', PBool True),
                    (''execution_time_ms'', PInt 2),
                    (''output'', PStr ''Example Domain''),
                    (''timestamp'', PStr ''2025-01-01T00:00:00''),
                    (''selector'', PStr ''h1''),
                    (''description'', PStr ''Extract heading text'')])]),
             Logged (Executing 4 4 (Some ''screenshot'')),
             Logged (ActionSuccess 1),
             Pushed
              (PDict
                [(''type'', PStr ''action_result''),
                 (''data'',
                  PDict
                   [(''type'', PStr ''screenshot''), (''success'', PBool True),
                    (''execution_time_ms'', PInt 1),
                    (''output'', PStr ''Screenshot captured (3 bytes)''),
                    (''timestamp'', PStr ''2025-01-01T00:00:00''),
                    (''description'',
                     PStr ''Capture screenshot to verify rendering''),
                    (''has_screenshot'', PBool True)])]),
             Logged Completed,
             Logged
              (Stats
                \<lparr>total_actions = 4, successful_actions = 4, failed_actions = 0,
                   total_execution_time_ms = 5, screenshots_captured = 1\<rparr>),
             Pushed
              (PDict
                [(''success'', PBool True),
                 (''stats'',
                  PDict
                   [(''total_actions'', PInt 4),
                    (''successful_actions'', PInt 4),
                    (''failed_actions'', PInt 0),
                    (''total_execution_time_ms'', PInt 5),
                    (''screenshots_captured'', PInt 1)]),
                 (''actions'',
                  PList
                   [PDict
                     [(''type'', PStr ''navigate''), (''success'', PBool True),
                      (''execution_time_ms'', PInt 1),
                      (''output'', PStr ''https://example.com/''),
                      (''timestamp'', PStr ''2025-01-01T00:00:00''),
                      (''value'', PStr ''https://example.com''),
                      (''description'',
                       PStr ''Navigate to example.com for testing'')],
                    PDict
                     [(''type'', PStr ''get_title''), (''success'', PBool True),
                      (''execution_time_ms'', PInt 1),
                      (''output'', PStr ''Example Domain''),
                      (''timestamp'', PStr ''2025-01-01T00:00:00''),
                      (''description'',
                       PStr ''Get page title to verify page load'')],
                    PDict
                     [(''type'', PStr ''extract_text''),
                      (''success'', PBool True), (''execution_time_ms'', PInt 2),
                      (''output'', PStr ''Example Domain''),
                      (''timestamp'', PStr ''2025-01-01T00:00:00''),
                      (''selector'', PStr ''h1''),
                      (''description'', PStr ''Extract heading text'')],
                    PDict
                     [(''type'', PStr ''screenshot''), (''success'', PBool True),
                      (''execution_time_ms'', PInt 1),
                      (''output'', PStr ''Screenshot captured (3 bytes)''),
                      (''timestamp'', PStr ''2025-01-01T00:00:00''),
                      (''description'',
                       PStr ''Capture screenshot to verify rendering''),
                      (''has_screenshot'', PBool True)]]),
                 (''timestamp'', PStr ''2025-01-01T00:00:00'')]),
             Logged BrowserClosed]\<rparr>)"
  by (simp add: run_defs b64encode_demo show_nat_3 del: b64encode.simps)

lemma bogus_run:
  "run (recording_engine (\<lambda>l. False) 4) (Some bogus_input) PlaywrightMCPActor_init env0 =
     ((Some (ValueError (quoted ''bogus'' @ '' is not a valid ActionType'')),
       \<lparr>controller =
          Some \<lparr>browser_type = CHROMIUM, browser = Some 2, context = Some 3, page = Some 4,
                playwright = Some 1, action_count = 1,
                start_time = Some ''2025-01-01T00:00:00''\<rparr>,
        results =
          [\<lparr>success = True,
            action = \<lparr>type = GET_TITLE, selector = None, value = None, selector_type = AUTO,
                      timeout = 10000, description = None, metadata = None\<rparr>,
            output = PStr ''Example Domain'', error = None, execution_time_ms = 1,
            screenshot_base64 = None, timestamp = ''2025-01-01T00:00:00''\<rparr>],
        stats = \<lparr>total_actions = 1, successful_actions = 1, failed_actions = 0,
                 total_execution_time_ms = 1, screenshots_captured = 0\<rparr>\<rparr>),
      \<lparr>world = [''playwright.start'', ''browser.launch'', ''new_context'', ''new_page'',
                ''title'', ''context.close'', ''browser.close'', ''playwright.stop''],
       trace =
         [Logged (ReceivedInput bogus_input),
          Logged (BrowserLaunched ''chromium'' False),
          Logged (BrowserInitialized ''chromium''),
          Logged (ExecutingActions 3),
          Logged (Executing 1 3 (Some ''get_title'')),
          Logged (ActionSuccess 1),
          Pushed (PDict [(''type'', PStr ''action_result''),
                         (''data'', PDict [(''type'', PStr ''get_title''),
                                           (''success'', PBool True),
                                           (''execution_time_ms'', PInt 1),
                                           (''output'', PStr ''Example Domain''),
                                           (''timestamp'', PStr ''2025-01-01T00:00:00'')])]),
          Logged (Executing 2 3 (Some ''bogus'')),
          Logged (ActorFailed (quoted ''bogus'' @ '' is not a valid ActionType'')),
          Pushed (PDict [(''success'', PBool False),
                         (''error'', PStr (quoted ''bogus'' @ '' is not a valid ActionType'')),
                         (''stats'', PDict [(''total_actions'', PInt 1),
                                            (''successful_actions'', PInt 1),
                                            (''failed_actions'', PInt 0),
                                            (''total_execution_time_ms'', PInt 1),
                                            (''screenshots_captured'', PInt 0)])]),
          Logged BrowserClosed]\<rparr>)"
  by (simp add: run_defs)

text \<open>
  Claim C1: what the code does. Take any run whose session launched (the controller
  holds its page) over a list \<open>ds\<close> of input actions. Its results are the results of
  executing, in order, the actions before the first one that \<open>_parse_action\<close> rejects,
  one result each, whether these actions succeeded or failed; and each result is pushed
  to the dataset before the iteration of the next action opens. When \<open>_parse_action\<close>
  accepts every action, the run raises nothing, there is one result per action, and the
  last push is the run summary. When it rejects one (a \<open>type\<close> or \<open>selector_type\<close>
  that is no member of the enumeration), the exception is raised in the loop outside
  \<open>execute_action\<close>: \<open>run\<close> raises it, the rejected action and all the actions after
  it have no result, and the last push is the failure record. So a failure of this kind
  in one action does abort the remainder of the run.
\<close>

theorem run_stops_at_rejected_action:
  assumes "run E actor_input PlaywrightMCPActor_init s = ((exc, self'), s')"
    and "\<exists>ctl. controller self' = Some ctl \<and> page ctl \<noteq> None"
    and "select_actions (snd (effective_input actor_input)) = Inr (ActionList ds)"
  shows "list_all (executed E) (results self') \<and>
         map (\<lambda>r. Inr (action r)) (results self') =
           map parse_action (take (length (results self')) ds) \<and>
         (case exc of
            None \<Rightarrow> length (results self') = length ds
          | Some e \<Rightarrow> length (results self') < length ds \<and>
              parse_action (ds ! length (results self')) = Inl e) \<and>
         (exc = None \<longleftrightarrow> list_all is_action ds) \<and>
         (\<exists>new w. trace s' = trace s @ new \<and>
            filter milestone new =
              milestones_of 1 (length ds) ds (results self') @
              (case exc of
                 None \<Rightarrow> [Pushed (prepare_output E self' w)]
               | Some e \<Rightarrow>
                   [Logged (Executing (1 + length (results self')) (length ds)
                              (d_type (ds ! length (results self')))),
                    Pushed (failure_item e (stats self'))]))"
  using assms by (rule run_launched_char)

theorem run_stops_at_rejected_action_witness:
  "select_actions (snd (effective_input (Some bogus_input))) =
     Inr (ActionList [act ''get_title'', act ''bogus'', act ''get_url'']) \<and>
   fst (fst (run (recording_engine (\<lambda>l. False) 4) (Some bogus_input) PlaywrightMCPActor_init env0)) =
     Some (ValueError (quoted ''bogus'' @ '' is not a valid ActionType'')) \<and>
   map (type \<circ> action) (results (snd (fst (run (recording_engine (\<lambda>l. False) 4) (Some bogus_input)
      PlaywrightMCPActor_init env0)))) = [GET_TITLE] \<and>
   list_all (executed (recording_engine (\<lambda>l. False) 4))
     (results (snd (fst (run (recording_engine (\<lambda>l. False) 4) (Some bogus_input)
        PlaywrightMCPActor_init env0)))) \<and>
   list_all is_action [act ''get_title'', act ''bogus'', act ''get_url''] = False"
proof -
  let ?E = "recording_engine (\<lambda>l. False) 4"
  let ?R = "run ?E (Some bogus_input) PlaywrightMCPActor_init env0"
  let ?ds = "[act ''get_title'', act ''bogus'', act ''get_url'']"
  have r: "?R = ((fst (fst ?R), snd (fst ?R)), snd ?R)" by simp
  have l: "\<exists>ctl. controller (snd (fst ?R)) = Some ctl \<and> page ctl \<noteq> None"
    by (simp add: bogus_run)
  have h3: "select_actions (snd (effective_input (Some bogus_input))) = Inr (ActionList ?ds)"
    by (simp add: run_defs)
  note t = run_stops_at_rejected_action [OF r l h3]
  have v: "fst (fst ?R) = Some (ValueError (quoted ''bogus'' @ '' is not a valid ActionType''))"
    "map (type \<circ> action) (results (snd (fst ?R))) = [GET_TITLE]"
    by (simp_all add: bogus_run)
  from t have e: "list_all (executed ?E) (results (snd (fst ?R)))" by blast
  from t v(1) have "list_all is_action ?ds = False" by simp
  with h3 v e show ?thesis by blast
qed

text \<open>
  Claim C2. The statistics start consistent (\<open>total = successful + failed\<close>, all zero);
  the update made after an action completes keeps them consistent; and however a run
  ends, normally or with an exception, its statistics are the fold of that update over
  its results, so they are consistent at run end and were so after each of its actions.
\<close>

theorem stats_total_is_successful_plus_failed:
  assumes "run E actor_input PlaywrightMCPActor_init s = ((exc, self'), s')"
  shows "stats_consistent (stats PlaywrightMCPActor_init) \<and>
         (\<forall>st r. stats_consistent st \<longrightarrow> stats_consistent (update_stats r st)) \<and>
         stats self' = stats_after (stats PlaywrightMCPActor_init) (results self') \<and>
         (\<forall>k. stats_consistent
                (stats_after (stats PlaywrightMCPActor_init) (take k (results self')))) \<and>
         stats_consistent (stats self')"
proof -
  have init: "stats_consistent (stats PlaywrightMCPActor_init)"
    by (simp add: stats_consistent_def PlaywrightMCPActor_init_def)
  from run_outcome [OF assms]
  have fold: "stats self' = stats_after (stats PlaywrightMCPActor_init) (results self')"
    by simp
  with stats_after_consistent [OF init] have "stats_consistent (stats self')"
    by simp
  with init fold show ?thesis
    by (auto intro: update_stats_consistent stats_after_consistent)
qed

theorem stats_total_is_successful_plus_failed_witness:
  "stats (snd (fst (run (recording_engine (\<lambda>l. False) 4) (Some demo_input)
      PlaywrightMCPActor_init env0))) =
     \<lparr>total_actions = 2, successful_actions = 1, failed_actions = 1,
      total_execution_time_ms = 5, screenshots_captured = 0\<rparr> \<and>
   stats_consistent (stats (snd (fst (run (recording_engine (\<lambda>l. False) 4) (Some demo_input)
      PlaywrightMCPActor_init env0)))) \<and>
   stats_consistent (stats_after (stats PlaywrightMCPActor_init)
      (take 1 (results (snd (fst (run (recording_engine (\<lambda>l. False) 4) (Some demo_input)
         PlaywrightMCPActor_init env0))))))"
proof -
  let ?R = "run (recording_engine (\<lambda>l. False) 4) (Some demo_input) PlaywrightMCPActor_init env0"
  have r: "?R = ((fst (fst ?R), snd (fst ?R)), snd ?R)" by simp
  note t = stats_total_is_successful_plus_failed [OF r]
  have v: "stats (snd (fst ?R)) =
     \<lparr>total_actions = 2, successful_actions = 1, failed_actions = 1,
      total_execution_time_ms = 5, screenshots_captured = 0\<rparr>"
    by (simp add: demo_run)
  from t v show ?thesis by blast
qed

lemma executed_screenshot_step:
  assumes "\<forall>w bs w'. page_screenshot E w = (Inr bs, w') \<longrightarrow> bs \<noteq> []" and "executed E r"
  shows "screenshots_captured (update_stats r st) =
           screenshots_captured st + (if type (action r) = SCREENSHOT \<and> success r then 1 else 0)"
  using executed_screenshot [OF assms] by (simp add: update_stats_fields)

lemma stats_after_snoc: "stats_after st (rs @ [r]) = update_stats r (stats_after st rs)"
  by (simp add: stats_after_def)

lemma stats_after_screenshots:
  assumes "\<forall>w bs w'. page_screenshot E w = (Inr bs, w') \<longrightarrow> bs \<noteq> []" and "list_all (executed E) rs"
  shows "screenshots_captured (stats_after st rs) =
           screenshots_captured st +
           length (filter (\<lambda>r. type (action r) = SCREENSHOT \<and> success r) rs)"
  using assms(2)
proof (induction rs rule: rev_induct)
  case Nil
  then show ?case by simp
next
  case (snoc r rs)
  then have "executed E r" "list_all (executed E) rs" by simp_all
  with snoc.IH executed_screenshot_step [OF assms(1), of r "stats_after st rs"]
  show ?case by (simp add: stats_after_snoc)
qed

text \<open>
  Claim C7. For an engine whose screenshots are never an empty buffer, and any run:
  the update after the \<open>k\<close>-th action adds exactly one to \<open>screenshots_captured\<close> when
  that action is a screenshot that succeeded and leaves the count as it is otherwise (a
  failed screenshot, or any other action type); so at run end the count is the number of
  successful screenshot actions.
\<close>

theorem screenshots_counted_once_on_success:
  assumes "\<forall>w bs w'. page_screenshot E w = (Inr bs, w') \<longrightarrow> bs \<noteq> []"
    and "run E actor_input PlaywrightMCPActor_init s = ((exc, self'), s')"
  shows "(\<forall>k < length (results self').
            screenshots_captured
              (stats_after (stats PlaywrightMCPActor_init) (take (Suc k) (results self'))) =
            screenshots_captured
              (stats_after (stats PlaywrightMCPActor_init) (take k (results self'))) +
            (if type (action (results self' ! k)) = SCREENSHOT \<and> success (results self' ! k)
             then 1 else 0)) \<and>
         screenshots_captured (stats self') =
           length (filter (\<lambda>r. type (action r) = SCREENSHOT \<and> success r) (results self'))"
proof -
  from run_outcome [OF assms(2)]
  have fold: "stats self' = stats_after (stats PlaywrightMCPActor_init) (results self')"
    and ex: "list_all (executed E) (results self')" by simp_all
  have "screenshots_captured
          (stats_after (stats PlaywrightMCPActor_init) (take (Suc k) (results self'))) =
        screenshots_captured
          (stats_after (stats PlaywrightMCPActor_init) (take k (results self'))) +
        (if type (action (results self' ! k)) = SCREENSHOT \<and> success (results self' ! k)
         then 1 else 0)" if "k < length (results self')" for k
  proof -
    from that ex have "executed E (results self' ! k)" by (simp add: list_all_length)
    from executed_screenshot_step [OF assms(1) this] that show ?thesis
      by (simp add: take_Suc_conv_app_nth stats_after_snoc)
  qed
  moreover have "screenshots_captured (stats self') =
      length (filter (\<lambda>r. type (action r) = SCREENSHOT \<and> success r) (results self'))"
    using stats_after_screenshots [OF assms(1) ex] fold
    by (simp add: PlaywrightMCPActor_init_def)
  ultimately show ?thesis by blast
qed

theorem screenshots_counted_once_on_success_witness:
  "map (\<lambda>r. (type (action r), success r))
     (results (snd (fst (run (recording_engine (\<lambda>l. l = PageLocator ''css=h1'') 4) None
        PlaywrightMCPActor_init env0)))) =
     [(NAVIGATE, True), (GET_TITLE, True), (EXTRACT_TEXT, True), (SCREENSHOT, True)] \<and>
   screenshots_captured (stats (snd (fst (run (recording_engine (\<lambda>l. l = PageLocator ''css=h1'') 4)
        None PlaywrightMCPActor_init env0)))) = 1 \<and>
   screenshots_captured (stats (snd (fst (run (recording_engine (\<lambda>l. l = PageLocator ''css=h1'') 4)
        None PlaywrightMCPActor_init env0)))) =
     length (filter (\<lambda>r. type (action r) = SCREENSHOT \<and> success r)
       (results (snd (fst (run (recording_engine (\<lambda>l. l = PageLocator ''css=h1'') 4) None
          PlaywrightMCPActor_init env0)))))"
proof -
  let ?E = "recording_engine (\<lambda>l. l = PageLocator ''css=h1'') 4"
  let ?R = "run ?E None PlaywrightMCPActor_init env0"
  have h: "\<forall>w bs w'. page_screenshot ?E w = (Inr bs, w') \<longrightarrow> bs \<noteq> []"
    by (auto simp: recording_engine_def)
  have r: "?R = ((fst (fst ?R), snd (fst ?R)), snd ?R)" by simp
  note t = screenshots_counted_once_on_success [OF h r]
  have v: "map (\<lambda>r. (type (action r), success r)) (results (snd (fst ?R))) =
     [(NAVIGATE, True), (GET_TITLE, True), (EXTRACT_TEXT, True), (SCREENSHOT, True)]"
    "screenshots_captured (stats (snd (fst ?R))) = 1"
    by (simp_all add: default_run)
  from t v show ?thesis by blast
qed

lemma run_completed_trace:
  assumes run: "run E actor_input PlaywrightMCPActor_init s = ((None, self'), s')"
  shows "\<exists>new ms w. trace s' = trace s @ new \<and>
            filter milestone new = ms @ [Pushed (prepare_output E self' w)]"
proof -
  from run_outcome [OF run]
  have launched: "\<exists>ctl. controller self' = Some ctl \<and> page ctl \<noteq> None" by simp
  from run_unfold [OF run] obtain s0 s1 where
    q0: "extends_by (\<lambda>e. \<not> milestone e) s s0"
    and rt: "run_try E (snd (effective_input actor_input)) PlaywrightMCPActor_init s0 =
               ((None, self'), s1)"
    and s': "s' = (case controller self' of None \<Rightarrow> (\<lambda>x. x) | Some ctl \<Rightarrow> close E ctl) s1"
    by auto
  have c0: "controller PlaywrightMCPActor_init = None"
    by (simp add: PlaywrightMCPActor_init_def)
  from run_try_launched [OF rt c0 launched] obtain ds ctl s4 ctl1 self1 s5 post where
    q4: "extends_by (\<lambda>e. \<not> milestone e) s0 s4"
    and ra: "run_actions E 1 (length ds) ds ctl PlaywrightMCPActor_init s4 = ((None, ctl1, self1), s5)"
    and post: "trace s1 = trace s5 @ post"
      "filter milestone post = [Pushed (prepare_output E self' (world s5))]"
    by auto
  from run_actions_char [OF ra] obtain new where new: "trace s5 = trace s4 @ new" by blast
  from launched obtain c where c: "controller self' = Some c" by blast
  with s' have "s' = close E c s1" by simp
  with close_quiet [of s1 E c] obtain cl where cl: "trace s' = trace s1 @ cl" "filter milestone cl = []"
    by (auto dest: extends_by_filter)
  from extends_by_trans [OF q0 q4] obtain pre where pre: "trace s4 = trace s @ pre"
    by (auto simp: extends_by_def)
  have "trace s' = trace s @ (pre @ new @ post @ cl)"
    using cl(1) post(1) new pre by simp
  moreover have "filter milestone (pre @ new @ post @ cl) =
      filter milestone (pre @ new) @ [Pushed (prepare_output E self' (world s5))]"
    using cl(2) post(2) by simp
  ultimately show ?thesis by blast
qed

lemma get_prepare_output:
  "get (prepare_output E self w) ''success'' = Some (PBool (failed_actions (stats self) = 0))"
  "get (prepare_output E self w) ''stats'' =
     Some (PDict [(''total_actions'', PInt (int (total_actions (stats self)))),
                  (''successful_actions'', PInt (int (successful_actions (stats self)))),
                  (''failed_actions'', PInt (int (failed_actions (stats self)))),
                  (''total_execution_time_ms'', PInt (total_execution_time_ms (stats self))),
                  (''screenshots_captured'', PInt (int (screenshots_captured (stats self))))])"
  "get (prepare_output E self w) ''actions'' = Some (PList (map to_dict (results self)))"
  "get (prepare_output E self w) ''timestamp'' = Some (PStr (now_iso E w))"
  by (simp_all add: prepare_output_def stats_dict_def)

text \<open>
  Claim C5. When a run completes (nothing is raised), the last record it pushes to the
  dataset is the run summary made from the final state of the actor: its \<open>success\<close> is
  \<open>failed_actions = 0\<close>, which holds exactly when every result succeeded; its \<open>stats\<close>
  holds the five statistics; its \<open>actions\<close> is the list of the results, in order, each
  as \<open>to_dict\<close> renders it; and its \<open>timestamp\<close> is a reading of the clock.
\<close>

theorem completed_run_summary:
  assumes "run E actor_input PlaywrightMCPActor_init s = ((None, self'), s')"
  shows "\<exists>new ms w.
           trace s' = trace s @ new \<and>
           filter milestone new = ms @ [Pushed (prepare_output E self' w)] \<and>
           get (prepare_output E self' w) ''success'' =
             Some (PBool (failed_actions (stats self') = 0)) \<and>
           (failed_actions (stats self') = 0 \<longleftrightarrow> list_all success (results self')) \<and>
           get (prepare_output E self' w) ''stats'' =
             Some (PDict
               [(''total_actions'', PInt (int (total_actions (stats self')))),
                (''successful_actions'', PInt (int (successful_actions (stats self')))),
                (''failed_actions'', PInt (int (failed_actions (stats self')))),
                (''total_execution_time_ms'', PInt (total_execution_time_ms (stats self'))),
                (''screenshots_captured'', PInt (int (screenshots_captured (stats self'))))]) \<and>
           get (prepare_output E self' w) ''actions'' =
             Some (PList (map to_dict (results self'))) \<and>
           get (prepare_output E self' w) ''timestamp'' = Some (PStr (now_iso E w))"
proof -
  from run_outcome [OF assms]
  have fold: "stats self' = stats_after (stats PlaywrightMCPActor_init) (results self')"
    by simp
  have "failed_actions (stats self') = length (filter (\<lambda>r. \<not> success r) (results self'))"
    by (simp add: fold stats_after_fields PlaywrightMCPActor_init_def)
  then have all: "failed_actions (stats self') = 0 \<longleftrightarrow> list_all success (results self')"
    by (simp add: filter_empty_conv list_all_iff)
  from run_completed_trace [OF assms] obtain new ms w where
    "trace s' = trace s @ new" "filter milestone new = ms @ [Pushed (prepare_output E self' w)]"
    by blast
  with all show ?thesis
    by (intro exI [of _ new] exI [of _ ms] exI [of _ w]) (simp add: get_prepare_output)
qed

theorem completed_run_summary_witness:
  "fst (fst (run (recording_engine (\<lambda>l. False) 4) (Some demo_input) PlaywrightMCPActor_init env0)) =
     None \<and>
   last (filter milestone (trace (snd (run (recording_engine (\<lambda>l. False) 4) (Some demo_input)
      PlaywrightMCPActor_init env0)))) =
     Pushed (prepare_output (recording_engine (\<lambda>l. False) 4)
       (snd (fst (run (recording_engine (\<lambda>l. False) 4) (Some demo_input)
          PlaywrightMCPActor_init env0))) []) \<and>
   get (prepare_output (recording_engine (\<lambda>l. False) 4)
       (snd (fst (run (recording_engine (\<lambda>l. False) 4) (Some demo_input)
          PlaywrightMCPActor_init env0))) []) ''success'' = Some (PBool False)"
proof -
  let ?E = "recording_engine (\<lambda>l. False) 4"
  let ?R = "run ?E (Some demo_input) PlaywrightMCPActor_init env0"
  have e: "fst (fst ?R) = None" by (simp add: demo_run)
  then have r: "?R = ((None, snd (fst ?R)), snd ?R)" by (metis prod.collapse)
  note t = completed_run_summary [OF r]
  have v: "last (filter milestone (trace (snd ?R))) = Pushed (prepare_output ?E (snd (fst ?R)) [])"
    "get (prepare_output ?E (snd (fst ?R)) []) ''success'' = Some (PBool False)"
    unfolding demo_run
    by (simp_all add: prepare_output_def stats_dict_def to_dict_def recording_engine_def
        truthy_val_def)
  from e t v show ?thesis by blast
qed

section \<open>The session is closed on the way out\<close>







section \<open>Templates and the default input\<close>

lemma get_template_unknown:
  "name \<notin> set [''amazon_product_search'', ''google_search'', ''linkedin_profile'',
                 ''twitter_scrape'', ''google_maps_business''] \<Longrightarrow>
   get_template name params = Inl (ValueError (''Unknown template: '' @ name))"
  by (simp add: get_template_def)

lemma get_template_missing_parameter:
  "map_of params ''search_query'' = None \<Longrightarrow>
   get_template ''amazon_product_search'' params =
     Inl (ValueError ''search_query is required for amazon_product_search template'') \<and>
   get_template ''google_search'' params =
     Inl (ValueError ''search_query is required for google_search template'') \<and>
   get_template ''google_maps_business'' params =
     Inl (ValueError ''search_query is required for google_maps_business template'')"
  "map_of params ''profile_url'' = None \<Longrightarrow>
   get_template ''linkedin_profile'' params =
     Inl (ValueError ''profile_url is required for linkedin_profile template'')"
  "map_of params ''username'' = None \<Longrightarrow>
   get_template ''twitter_scrape'' params =
     Inl (ValueError ''username is required for twitter_scrape template'')"
  by (simp_all add: get_template_def amazon_product_search_def google_search_def
      google_maps_business_def linkedin_profile_def twitter_scrape_def param_def truthy_val_def)

text \<open>When the input also carries a non-empty \<open>actions\<close> list, an error of the template
  generator ends the run before the controller is created: nothing is launched, no
  action runs, the statistics are all zero, and the failure record is pushed.\<close>

lemma template_error_is_fatal:
  assumes "truthy_actions (in_actions inp)" and "truthy_str (in_template inp)"
    and "get_template (get_default (in_template inp) [])
           (get_default (in_template_params inp) []) = Inl e"
  shows "run E (Some inp) PlaywrightMCPActor_init s =
     ((Some (ValueError (''Template error: '' @ str_exn e)), PlaywrightMCPActor_init),
      s\<lparr>trace := trace s @
          [Logged (ReceivedInput inp),
           Logged (UsingTemplate (get_default (in_template inp) [])),
           Logged (ActorFailed (''Template error: '' @ str_exn e)),
           Pushed (PDict [(''success'', PBool False),
                          (''error'', PStr (''Template error: '' @ str_exn e)),
                          (''stats'', PDict [(''total_actions'', PInt 0),
                                             (''successful_actions'', PInt 0),
                                             (''failed_actions'', PInt 0),
                                             (''total_execution_time_ms'', PInt 0),
                                             (''screenshots_captured'', PInt 0)])])]\<rparr>)"
proof -
  from assms(1) have "inp \<noteq> empty_input"
    by (auto simp: truthy_actions_def empty_input_def)
  with assms(1) have ei: "effective_input (Some inp) = (False, inp)"
    by (simp add: effective_input_def)
  from assms(2,3) have sa: "select_actions inp = Inl (ValueError (''Template error: '' @ str_exn e))"
    by (simp add: select_actions_def)
  show ?thesis
    using assms(2)
    by (simp add: run_def ei run_try_def sa Let_def PlaywrightMCPActor_init_def stats_dict_def
        logger_def push_data_def)
qed

lemma no_actions_means_default:
  "\<not> truthy_actions (in_actions inp) \<Longrightarrow> effective_input (Some inp) = (True, default_input)"
  "effective_input None = (True, default_input)"
  by (simp_all add: effective_input_def)

lemma run_without_actions:
  "\<not> truthy_actions (in_actions inp) \<Longrightarrow> run E (Some inp) self s = run E None self s"
  by (simp add: run_def no_actions_means_default)

text \<open>
  Claim C8: the code at a failing input. An input that names an unknown template and
  has no \<open>actions\<close> list is taken for a missing input: the template name is dropped
  with the rest of the input, no template error is raised, the browser is launched and
  the four default actions run.
\<close>

theorem unknown_template_without_actions_runs_default:
  "get_template ''no_such_template'' [] =
     Inl (ValueError ''Unknown template: no_such_template'') \<and>
   run (recording_engine (\<lambda>l. l = PageLocator ''css=h1'') 4)
     (Some (empty_input\<lparr>in_template := Some ''no_such_template''\<rparr>)) PlaywrightMCPActor_init env0 =
   run (recording_engine (\<lambda>l. l = PageLocator ''css=h1'') 4) None PlaywrightMCPActor_init env0 \<and>
   fst (fst (run (recording_engine (\<lambda>l. l = PageLocator ''css=h1'') 4)
     (Some (empty_input\<lparr>in_template := Some ''no_such_template''\<rparr>))
     PlaywrightMCPActor_init env0)) = None \<and>
   map (type \<circ> action) (results (snd (fst (run (recording_engine (\<lambda>l. l = PageLocator ''css=h1'') 4)
     (Some (empty_input\<lparr>in_template := Some ''no_such_template''\<rparr>))
     PlaywrightMCPActor_init env0)))) = [NAVIGATE, GET_TITLE, EXTRACT_TEXT, SCREENSHOT] \<and>
   world (snd (run (recording_engine (\<lambda>l. l = PageLocator ''css=h1'') 4)
     (Some (empty_input\<lparr>in_template := Some ''no_such_template''\<rparr>))
     PlaywrightMCPActor_init env0)) =
     [''playwright.start'', ''browser.launch'', ''new_context'', ''new_page'', ''goto'',
      ''title'', ''wait_for'', ''text_content'', ''screenshot'', ''context.close'',
      ''browser.close'', ''playwright.stop'']"
proof -
  have a: "\<not> truthy_actions (in_actions (empty_input\<lparr>in_template := Some ''no_such_template''\<rparr>))"
    by (simp add: truthy_actions_def empty_input_def)
  have g: "get_template ''no_such_template'' [] =
     Inl (ValueError ''Unknown template: no_such_template'')"
    by (simp add: get_template_def)
  show ?thesis
    unfolding run_without_actions [OF a] default_run using g by simp
qed







end
